theory Spec2Isabelle
  imports Complex_Main "HOL-Library.Word"
begin

unbundle bit_operations_syntax

section \<open>Constants of the driver\<close>

text \<open>
  Return codes are C \<open>int\<close>s: \<open>OK\<close> is 0 and an error is the negated errno value.
  The errno numbers are those of the operating system's \<open>errno.h\<close>.
\<close>

definition OK :: int where "OK = 0"
definition EIO :: int where "EIO = 5"
definition EAGAIN :: int where "EAGAIN = 11"
definition ENOMEM :: int where "ENOMEM = 12"
definition ENODEV :: int where "ENODEV = 19"
definition EINVAL :: int where "EINVAL = 22"
definition ENOTTY :: int where "ENOTTY = 25"

definition ICM_WHOAMI_EXPECTED :: "8 word" where "ICM_WHOAMI_EXPECTED = 0x47"
definition ICM_REG_WHO_AM_I :: "8 word" where "ICM_REG_WHO_AM_I = 0x75"
definition ICM_REG_DEVICE_CONFIG :: "8 word" where "ICM_REG_DEVICE_CONFIG = 0x11"
definition ICM_REG_PWR_MGMT0 :: "8 word" where "ICM_REG_PWR_MGMT0 = 0x4E"
definition ICM_REG_GYRO_CONFIG0 :: "8 word" where "ICM_REG_GYRO_CONFIG0 = 0x4F"
definition ICM_REG_ACCEL_CONFIG0 :: "8 word" where "ICM_REG_ACCEL_CONFIG0 = 0x50"
definition ICM_REG_ACCEL_DATA_X1 :: "8 word" where "ICM_REG_ACCEL_DATA_X1 = 0x1F"
definition ICM_REG_FIFO_CONFIG_INIT :: "8 word" where "ICM_REG_FIFO_CONFIG_INIT = 0x16"
definition ICM_REG_FIFO_CONFIGURATION :: "8 word" where "ICM_REG_FIFO_CONFIGURATION = 0x5F"
definition ICM_REG_FIFO_DATA :: "8 word" where "ICM_REG_FIFO_DATA = 0x30"
definition ICM_FIFO_READ_LEN :: nat where "ICM_FIFO_READ_LEN = 16"
definition ICM_BURST_READ_LEN :: nat where "ICM_BURST_READ_LEN = 12"
definition ICM_PWR_LN_GYRO_ACCEL :: "8 word" where "ICM_PWR_LN_GYRO_ACCEL = 0x0F"

definition ICM_IOCTL_GET_SAMPLE :: int where "ICM_IOCTL_GET_SAMPLE = 0x1001"
definition ICM_IOCTL_GET_ACCEL_FS :: int where "ICM_IOCTL_GET_ACCEL_FS = 0x1101"
definition ICM_IOCTL_GET_GYRO_FS :: int where "ICM_IOCTL_GET_GYRO_FS = 0x1102"
definition ICM_IOCTL_GET_ACCEL_CONFIG0_RAW :: int where "ICM_IOCTL_GET_ACCEL_CONFIG0_RAW = 0x1201"
definition ICM_IOCTL_GET_GYRO_CONFIG0_RAW :: int where "ICM_IOCTL_GET_GYRO_CONFIG0_RAW = 0x1202"
definition ICM_IOCTL_GET_SCALES :: int where "ICM_IOCTL_GET_SCALES = 0x1301"

section \<open>Data model\<close>

text \<open>\<open>struct icm42688_sample_s\<close>: six \<open>int16_t\<close> raw counts.\<close>

record icm42688_sample_s =
  accel_x :: "16 word"
  accel_y :: "16 word"
  accel_z :: "16 word"
  gyro_x :: "16 word"
  gyro_y :: "16 word"
  gyro_z :: "16 word"

text \<open>
  \<open>struct i2c_msg_s\<close> of the bus layer. A write message carries its bytes in
  \<open>buffer\<close>; a read message has an empty \<open>buffer\<close> here and the bytes read come back
  from the transfer.
\<close>

definition I2C_M_READ :: nat where "I2C_M_READ = 0x0001"
definition I2C_M_NOSTOP :: nat where "I2C_M_NOSTOP = 0x0040"

record i2c_msg_s =
  frequency :: "32 word"
  addr :: "8 word"
  flags :: nat
  buffer :: "8 word list"
  length_m :: nat

text \<open>
  \<open>I2C_TRANSFER(dev->i2c, msgs, count)\<close> belongs to the bus layer, so the bus is a
  parameter: a transfer takes the state of the bus and the messages and yields the
  integer result (negative on failure), the contents of the read buffer by index, and
  the next state of the bus.
\<close>

type_synonym 'b i2c_master_s = "'b \<Rightarrow> i2c_msg_s list \<Rightarrow> int \<times> (nat \<Rightarrow> 8 word) \<times> 'b"

text \<open>\<open>struct icm42688_dev_s\<close> without its lock and read cursor.\<close>

record 'b icm42688_dev_s =
  i2c :: "'b i2c_master_s"
  i2c_freq :: "32 word"
  i2c_addr :: "8 word"

section \<open>Register transport\<close>

definition icm_i2c_read ::
  "'b icm42688_dev_s \<Rightarrow> 8 word \<Rightarrow> nat \<Rightarrow> 'b \<Rightarrow> (int \<times> (nat \<Rightarrow> 8 word)) \<times> 'b" where
  "icm_i2c_read dev reg len b =
     (let msg0 = \<lparr>frequency = i2c_freq dev, addr = i2c_addr dev, flags = I2C_M_NOSTOP,
                  buffer = [reg], length_m = 1\<rparr>;
          msg1 = \<lparr>frequency = i2c_freq dev, addr = i2c_addr dev, flags = I2C_M_READ,
                  buffer = [], length_m = len\<rparr>;
          (ret, buf, b') = i2c dev b [msg0, msg1]
      in ((if ret < 0 then ret else OK, buf), b'))"

definition icm_i2c_write1 ::
  "'b icm42688_dev_s \<Rightarrow> 8 word \<Rightarrow> 8 word \<Rightarrow> 'b \<Rightarrow> int \<times> 'b" where
  "icm_i2c_write1 dev reg val b =
     (let msg = \<lparr>frequency = i2c_freq dev, addr = i2c_addr dev, flags = 0,
                 buffer = [reg, val], length_m = 2\<rparr>;
          (ret, buf, b') = i2c dev b [msg]
      in (if ret < 0 then ret else OK, b'))"

section \<open>Frame decoder\<close>

text \<open>
  \<open>(int16_t)((hi << 8) | lo)\<close>: both bytes are promoted to \<open>int\<close>, combined, and the
  result is cut to 16 bits.
\<close>

definition be16 :: "8 word \<Rightarrow> 8 word \<Rightarrow> 16 word" where
  "be16 hi lo = word_of_int (push_bit 8 (uint hi) OR uint lo)"

text \<open>
  \<open>(int16_t)(r >> 1)\<close> for an \<open>int16_t r\<close>: \<open>r\<close> is promoted to \<open>int\<close> with its sign
  and shifted arithmetically, as the target compiler does for negative values.
\<close>

definition asr1 :: "16 word \<Rightarrow> 16 word" where
  "asr1 r = word_of_int (drop_bit 1 (sint r))"

definition icm_parse_fifo_sample ::
  "(nat \<Rightarrow> 8 word) \<Rightarrow> nat \<Rightarrow> int + icm42688_sample_s" where
  "icm_parse_fifo_sample fifo_buf len =
     (if len < ICM_FIFO_READ_LEN then Inl (- EINVAL)
      else
        (let rx = be16 (fifo_buf 1) (fifo_buf 2);
             ry = be16 (fifo_buf 3) (fifo_buf 4);
             rz = be16 (fifo_buf 5) (fifo_buf 6)
         in Inr \<lparr>accel_x = asr1 rx, accel_y = asr1 ry, accel_z = asr1 rz,
                 gyro_x = be16 (fifo_buf 7) (fifo_buf 8),
                 gyro_y = be16 (fifo_buf 9) (fifo_buf 10),
                 gyro_z = be16 (fifo_buf 11) (fifo_buf 12)\<rparr>))"

definition icm_read_fifo_packet ::
  "'b icm42688_dev_s \<Rightarrow> 'b \<Rightarrow> (int + icm42688_sample_s) \<times> 'b" where
  "icm_read_fifo_packet dev b =
     (let ((ret, fifo_buf), b') = icm_i2c_read dev ICM_REG_FIFO_DATA ICM_FIFO_READ_LEN b
      in if ret < 0 then (Inl (- EIO), b')
         else
           (case icm_parse_fifo_sample fifo_buf ICM_FIFO_READ_LEN of
              Inl pret \<Rightarrow> (Inl pret, b')
            | Inr tmp \<Rightarrow>
                (Inr (tmp\<lparr>accel_x := asr1 (accel_x tmp),
                          accel_y := asr1 (accel_y tmp),
                          accel_z := asr1 (accel_z tmp)\<rparr>), b')))"

definition icm_parse_sample ::
  "(nat \<Rightarrow> 8 word) \<Rightarrow> nat \<Rightarrow> int + icm42688_sample_s" where
  "icm_parse_sample buf len =
     (if len < ICM_BURST_READ_LEN then Inl (- EINVAL)
      else
        (let rx = be16 (buf 0) (buf 1);
             ry = be16 (buf 2) (buf 3);
             rz = be16 (buf 4) (buf 5)
         in Inr \<lparr>accel_x = asr1 rx, accel_y = asr1 ry, accel_z = asr1 rz,
                 gyro_x = be16 (buf 6) (buf 7),
                 gyro_y = be16 (buf 8) (buf 9),
                 gyro_z = be16 (buf 10) (buf 11)\<rparr>))"

text \<open>
  \<open>icm_read_oneshot\<close>: \<open>len\<close> is the size of the caller's buffer; the 12 bytes of a
  sample are \<open>sizeof(dev->buf)\<close>. \<open>Inr s\<close> stands for the return value 12 with \<open>s\<close>
  copied to the caller.
\<close>

definition sizeof_sample :: nat where "sizeof_sample = 12"

definition icm_read_oneshot ::
  "'b icm42688_dev_s \<Rightarrow> nat \<Rightarrow> 'b \<Rightarrow> (int + icm42688_sample_s) \<times> 'b" where
  "icm_read_oneshot dev len b =
     (if len < sizeof_sample then (Inl (- EINVAL), b)
      else
        (case icm_read_fifo_packet dev b of
           (Inr s1, b') \<Rightarrow> (Inr s1, b')
         | (Inl ret, b') \<Rightarrow> (Inl (- EAGAIN), b')))"

definition icm_read_dev ::
  "'b icm42688_dev_s \<Rightarrow> nat \<Rightarrow> 'b \<Rightarrow> (int + icm42688_sample_s) \<times> 'b" where
  "icm_read_dev dev len b = icm_read_oneshot dev len b"

section \<open>Floating-point arithmetic\<close>

text \<open>
  The C \<open>float\<close> type and its operations come from the compiler and the math library.
  They are a parameter of the model: a type \<open>'f\<close> of values together with the
  operations the code uses. \<open>lit\<close> reads a decimal literal such as \<open>1.7f\<close>,
  \<open>fof_int\<close> is the conversion \<open>(float)n\<close> of an integer, \<open>flt a b\<close> is \<open>a < b\<close>
  (and \<open>b > a\<close>), \<open>fle a b\<close> is \<open>a <= b\<close> (and \<open>b >= a\<close>).
\<close>

record 'f float_ops =
  lit :: "real \<Rightarrow> 'f"
  fof_int :: "int \<Rightarrow> 'f"
  fadd :: "'f \<Rightarrow> 'f \<Rightarrow> 'f"
  fsub :: "'f \<Rightarrow> 'f \<Rightarrow> 'f"
  fmul :: "'f \<Rightarrow> 'f \<Rightarrow> 'f"
  fdiv :: "'f \<Rightarrow> 'f \<Rightarrow> 'f"
  fsqrt :: "'f \<Rightarrow> 'f"
  fabs :: "'f \<Rightarrow> 'f"
  flt :: "'f \<Rightarrow> 'f \<Rightarrow> bool"
  fle :: "'f \<Rightarrow> 'f \<Rightarrow> bool"

text \<open>\<open>sqrtf(x*x + y*y + z*z)\<close>\<close>

definition norm3 :: "'f float_ops \<Rightarrow> 'f \<Rightarrow> 'f \<Rightarrow> 'f \<Rightarrow> 'f" where
  "norm3 fl x y z =
     fsqrt fl (fadd fl (fadd fl (fmul fl x x) (fmul fl y y)) (fmul fl z z))"

section \<open>Control interface\<close>

datatype ioctl_out =
    OutNone
  | OutSample icm42688_sample_s
  | OutScales "32 word" "32 word"
  | OutFsSel int
  | OutRaw "8 word"

text \<open>\<open>(v >> 4) & 0x03\<close> on a \<open>uint8_t v\<close>, as an \<open>int\<close>.\<close>

definition fs_sel_of :: "8 word \<Rightarrow> int" where
  "fs_sel_of v = drop_bit 4 (uint v) AND 3"

text \<open>The two \<open>switch\<close> statements of the scale query, with their \<open>default\<close> branches.\<close>

definition accel_scale_of :: "int \<Rightarrow> 32 word" where
  "accel_scale_of acc_fs_sel =
     (if acc_fs_sel = 0 then 16384
      else if acc_fs_sel = 1 then 8192
      else if acc_fs_sel = 2 then 16384
      else if acc_fs_sel = 3 then 2048
      else 16384)"

definition gyro_scale_of :: "int \<Rightarrow> 32 word" where
  "gyro_scale_of gyr_fs_sel =
     (if gyr_fs_sel = 0 then 164
      else if gyr_fs_sel = 1 then 328
      else if gyr_fs_sel = 2 then 656
      else if gyr_fs_sel = 3 then 1310
      else 164)"

text \<open>
  The body of the \<open>do { ... } while (0)\<close> block of the scale query once a sample \<open>s\<close>
  has been parsed: the value of \<open>scales[0]\<close> after the block.
\<close>

definition probe_norm :: "'f float_ops \<Rightarrow> icm42688_sample_s \<Rightarrow> 32 word \<Rightarrow> 'f" where
  "probe_norm fl s scales0 =
     (let ax = fdiv fl (fof_int fl (sint (accel_x s))) (fof_int fl (uint scales0));
          ay = fdiv fl (fof_int fl (sint (accel_y s))) (fof_int fl (uint scales0));
          az = fdiv fl (fof_int fl (sint (accel_z s))) (fof_int fl (uint scales0))
      in norm3 fl ax ay az)"

definition probe_adjust :: "'f float_ops \<Rightarrow> icm42688_sample_s \<Rightarrow> 32 word \<Rightarrow> 32 word" where
  "probe_adjust fl s scales0 =
     (let an = probe_norm fl s scales0
      in if flt fl (lit fl 1.7) an \<and> flt fl an (lit fl 2.2) \<and> scales0 < 65536
         then scales0 * 2
         else if flt fl (lit fl 0.45) an \<and> flt fl an (lit fl 0.65) \<and> 512 < scales0
         then scales0 div 2
         else scales0)"

text \<open>
  \<open>icm_ioctl_dev\<close>. \<open>arg_null\<close> says whether the argument pointer is \<open>NULL\<close>; what
  the code stores through a valid pointer is the \<open>ioctl_out\<close> of the result.
\<close>

definition icm_ioctl_dev ::
  "'f float_ops \<Rightarrow> 'b icm42688_dev_s \<Rightarrow> int \<Rightarrow> bool \<Rightarrow> 'b \<Rightarrow> (int \<times> ioctl_out) \<times> 'b" where
  "icm_ioctl_dev fl dev cmd arg_null b =
     (if cmd = ICM_IOCTL_GET_SAMPLE then
        (if arg_null then ((- EINVAL, OutNone), b)
         else
           (case icm_read_oneshot dev sizeof_sample b of
              (Inl n, b') \<Rightarrow> ((n, OutNone), b')
            | (Inr s, b') \<Rightarrow> ((OK, OutSample s), b')))
      else if cmd = ICM_IOCTL_GET_SCALES then
        (if arg_null then ((- EINVAL, OutNone), b)
         else
           (let ((ret1, acc), b1) = icm_i2c_read dev ICM_REG_ACCEL_CONFIG0 1 b;
                ((ret2, gyr), b2) = icm_i2c_read dev ICM_REG_GYRO_CONFIG0 1 b1
            in if ret1 < 0 then ((ret1, OutNone), b2)
               else if ret2 < 0 then ((ret2, OutNone), b2)
               else
                 (let acc_fs_sel = fs_sel_of (acc 0);
                      gyr_fs_sel = fs_sel_of (gyr 0);
                      scales0 = accel_scale_of acc_fs_sel;
                      scales1 = gyro_scale_of gyr_fs_sel;
                      ((ret3, raw), b3) =
                         icm_i2c_read dev ICM_REG_ACCEL_DATA_X1 ICM_BURST_READ_LEN b2
                  in if ret3 \<noteq> OK then ((OK, OutScales scales0 scales1), b3)
                     else
                       (case icm_parse_sample raw ICM_BURST_READ_LEN of
                          Inl pret \<Rightarrow> ((OK, OutScales scales0 scales1), b3)
                        | Inr s \<Rightarrow>
                            ((OK, OutScales (probe_adjust fl s scales0) scales1), b3)))))
      else if cmd = ICM_IOCTL_GET_ACCEL_FS then
        (if arg_null then ((- EINVAL, OutNone), b)
         else
           (let ((ret, v), b') = icm_i2c_read dev ICM_REG_ACCEL_CONFIG0 1 b
            in if ret < 0 then ((ret, OutNone), b')
               else ((OK, OutFsSel (fs_sel_of (v 0))), b')))
      else if cmd = ICM_IOCTL_GET_GYRO_FS then
        (if arg_null then ((- EINVAL, OutNone), b)
         else
           (let ((ret, v), b') = icm_i2c_read dev ICM_REG_GYRO_CONFIG0 1 b
            in if ret < 0 then ((ret, OutNone), b')
               else ((OK, OutFsSel (fs_sel_of (v 0))), b')))
      else if cmd = ICM_IOCTL_GET_ACCEL_CONFIG0_RAW then
        (if arg_null then ((- EINVAL, OutNone), b)
         else
           (let ((ret, v), b') = icm_i2c_read dev ICM_REG_ACCEL_CONFIG0 1 b
            in if ret < 0 then ((ret, OutNone), b')
               else ((OK, OutRaw (v 0)), b')))
      else if cmd = ICM_IOCTL_GET_GYRO_CONFIG0_RAW then
        (if arg_null then ((- EINVAL, OutNone), b)
         else
           (let ((ret, v), b') = icm_i2c_read dev ICM_REG_GYRO_CONFIG0 1 b
            in if ret < 0 then ((ret, OutNone), b')
               else ((OK, OutRaw (v 0)), b')))
      else ((- ENOTTY, OutNone), b))"

section \<open>Bring-up\<close>

text \<open>The settle delays (\<open>usleep\<close>) change no state of the model and are left out.\<close>

definition icm_reset :: "'b icm42688_dev_s \<Rightarrow> 'b \<Rightarrow> int \<times> 'b" where
  "icm_reset dev b =
     (let (ret, b') = icm_i2c_write1 dev ICM_REG_DEVICE_CONFIG 0x01 b
      in if ret < 0 then (ret, b') else (OK, b'))"

text \<open>The \<open>for (int i = 0; i < 50; i++)\<close> loop of \<open>icm_check_whoami\<close>, from index \<open>i\<close>.\<close>

function whoami_loop :: "'b icm42688_dev_s \<Rightarrow> nat \<Rightarrow> 'b \<Rightarrow> int \<times> 'b" where
  "whoami_loop dev i b =
     (if i < 50 then
        (let ((ret, id), b') = icm_i2c_read dev ICM_REG_WHO_AM_I 1 b
         in if ret = OK \<and> id 0 = ICM_WHOAMI_EXPECTED then (OK, b')
            else whoami_loop dev (i + 1) b')
      else (- ENODEV, b))"
  by pat_completeness auto
termination
  by (relation "measure (\<lambda>(dev, i, b). 50 - i)") auto

definition icm_check_whoami :: "'b icm42688_dev_s \<Rightarrow> 'b \<Rightarrow> int \<times> 'b" where
  "icm_check_whoami dev b = whoami_loop dev 0 b"

definition icm_configure_default :: "'b icm42688_dev_s \<Rightarrow> 'b \<Rightarrow> int \<times> 'b" where
  "icm_configure_default dev b =
     (let (ret1, b1) = icm_i2c_write1 dev ICM_REG_PWR_MGMT0 ICM_PWR_LN_GYRO_ACCEL b
      in if ret1 < 0 then (ret1, b1)
         else
           (let (ret2, b2) = icm_i2c_write1 dev ICM_REG_GYRO_CONFIG0 0x66 b1
            in if ret2 < 0 then (ret2, b2)
               else
                 (let (ret3, b3) = icm_i2c_write1 dev ICM_REG_ACCEL_CONFIG0 0x66 b2
                  in if ret3 < 0 then (ret3, b3)
                     else
                       (let (ret4, b4) = icm_i2c_write1 dev ICM_REG_FIFO_CONFIG_INIT 0x40 b3;
                            (ret5, b5) = icm_i2c_write1 dev ICM_REG_FIFO_CONFIGURATION 0x07 b4
                        in (OK, b5)))))"

text \<open>
  \<open>struct icm42688_config_s\<close>; \<open>cfg_i2c = None\<close> is a \<open>NULL\<close> bus pointer. The allocator
  and \<open>register_driver\<close> belong to the operating system: \<open>kmm_malloc_ok\<close> says whether
  the allocation succeeds and \<open>register_driver\<close> gives the result of registering a
  path.
\<close>

record 'b icm42688_config_s =
  cfg_i2c :: "'b i2c_master_s option"
  cfg_addr :: "8 word"
  cfg_freq :: "32 word"

record os_env =
  kmm_malloc_ok :: bool
  register_driver :: "string \<Rightarrow> int"

text \<open>
  \<open>icm42688_register\<close>: the result code, the device handle left registered (if any)
  and the bus afterwards. \<open>cfg = None\<close> is a \<open>NULL\<close> configuration.
\<close>

definition icm42688_register ::
  "os_env \<Rightarrow> string \<Rightarrow> 'b icm42688_config_s option \<Rightarrow> 'b
     \<Rightarrow> int \<times> 'b icm42688_dev_s option \<times> 'b" where
  "icm42688_register env path cfg b =
     (case cfg of
        None \<Rightarrow> (- EINVAL, None, b)
      | Some c \<Rightarrow>
          (case cfg_i2c c of
             None \<Rightarrow> (- EINVAL, None, b)
           | Some bus \<Rightarrow>
               if \<not> kmm_malloc_ok env then (- ENOMEM, None, b)
               else
                 (let dev = \<lparr>i2c = bus,
                             i2c_freq = (if cfg_freq c \<noteq> 0 then cfg_freq c else 400000),
                             i2c_addr = cfg_addr c\<rparr>;
                      (ret, b1) = icm_reset dev b
                  in if ret < 0 then (ret, None, b1)
                     else
                       (let (ret, b2) = icm_check_whoami dev b1;
                            (ret, dev, b4) =
                              (if ret < 0 then
                                 (let alt = (if i2c_addr dev = 0x68 then 0x69 else 0x68);
                                      dev = dev\<lparr>i2c_addr := alt\<rparr>;
                                      (ret, b3) = icm_reset dev b2
                                  in if ret < 0 then (ret, dev, b3)
                                     else
                                       (let (ret, b4) = icm_check_whoami dev b3
                                        in (ret, dev, b4)))
                               else (ret, dev, b2))
                        in if ret < 0 then (ret, None, b4)
                           else
                             (let (ret, b5) = icm_configure_default dev b4
                              in if ret < 0 then (ret, None, b5)
                                 else
                                   (let ret = register_driver env path
                                    in if ret < 0 then (ret, None, b5)
                                       else (OK, Some dev, b5)))))))"

section \<open>Acquisition and calibration loop\<close>

text \<open>
  The local variables of \<open>icm42688_test_main\<close> that live across iterations of its
  \<open>while (1)\<close> loop. The three counters are C \<open>int\<close>s; they are unbounded integers
  here, which differs from the code only after more than \<open>2^31\<close> frames.
\<close>

record 'f loop_state =
  first :: bool
  accel_lsb_per_g :: 'f
  gyro_lsb_per_dps :: 'f
  fs_ready :: bool
  ax_bias :: 'f
  ay_bias :: 'f
  az_bias :: 'f
  gx_bias :: 'f
  gy_bias :: 'f
  gz_bias :: 'f
  filt_init :: bool
  fax :: 'f
  fay :: 'f
  faz :: 'f
  fgx :: 'f
  fgy :: 'f
  fgz :: 'f
  accel_scale_sanity_fixed :: bool
  anorm_high_cnt :: int
  anorm_low_cnt :: int
  print_count :: int

definition init_state :: "'f float_ops \<Rightarrow> 'f loop_state" where
  "init_state fl =
     \<lparr>first = True, accel_lsb_per_g = lit fl 2048.0, gyro_lsb_per_dps = lit fl 16.4,
      fs_ready = False,
      ax_bias = lit fl 0.0, ay_bias = lit fl 0.0, az_bias = lit fl 0.0,
      gx_bias = lit fl 0.0, gy_bias = lit fl 0.0, gz_bias = lit fl 0.0,
      filt_init = False,
      fax = lit fl 0.0, fay = lit fl 0.0, faz = lit fl 0.0,
      fgx = lit fl 0.0, fgy = lit fl 0.0, fgz = lit fl 0.0,
      accel_scale_sanity_fixed = False, anorm_high_cnt = 0, anorm_low_cnt = 0,
      print_count = 0\<rparr>"

definition beta_bias :: "'f float_ops \<Rightarrow> 'f" where "beta_bias fl = lit fl 0.005"
definition gyro_stable_dps :: "'f float_ops \<Rightarrow> 'f" where "gyro_stable_dps fl = lit fl 1.0"
definition accel_norm_tolerance_g :: "'f float_ops \<Rightarrow> 'f" where
  "accel_norm_tolerance_g fl = lit fl 0.02"
definition alpha :: "'f float_ops \<Rightarrow> 'f" where "alpha fl = lit fl 0.15"
definition anorm_trigger_frames :: int where "anorm_trigger_frames = 5"
definition print_every_n :: int where "print_every_n = 10"

text \<open>The six physical values of the current sample and the acceleration norm.\<close>

record 'f phys =
  ax_g :: 'f
  ay_g :: 'f
  az_g :: 'f
  gx_dps :: 'f
  gy_dps :: 'f
  gz_dps :: 'f
  anorm :: 'f

text \<open>Raw counts divided by the scales, and the norm of the acceleration.\<close>

definition convert :: "'f float_ops \<Rightarrow> 'f loop_state \<Rightarrow> icm42688_sample_s \<Rightarrow> 'f phys" where
  "convert fl st s =
     (let ax = fdiv fl (fof_int fl (sint (accel_x s))) (accel_lsb_per_g st);
          ay = fdiv fl (fof_int fl (sint (accel_y s))) (accel_lsb_per_g st);
          az = fdiv fl (fof_int fl (sint (accel_z s))) (accel_lsb_per_g st)
      in \<lparr>ax_g = ax, ay_g = ay, az_g = az,
          gx_dps = fdiv fl (fof_int fl (sint (gyro_x s))) (gyro_lsb_per_dps st),
          gy_dps = fdiv fl (fof_int fl (sint (gyro_y s))) (gyro_lsb_per_dps st),
          gz_dps = fdiv fl (fof_int fl (sint (gyro_z s))) (gyro_lsb_per_dps st),
          anorm = norm3 fl ax ay az\<rparr>)"

text \<open>The three conditional assignments that compute \<open>gyro_abs_max\<close>.\<close>

definition gyro_abs_max :: "'f float_ops \<Rightarrow> 'f phys \<Rightarrow> 'f" where
  "gyro_abs_max fl p =
     (let m0 = lit fl 0.0;
          m1 = (if flt fl m0 (fabs fl (gx_dps p)) then fabs fl (gx_dps p) else m0);
          m2 = (if flt fl m1 (fabs fl (gy_dps p)) then fabs fl (gy_dps p) else m1);
          m3 = (if flt fl m2 (fabs fl (gz_dps p)) then fabs fl (gz_dps p) else m2)
      in m3)"

text \<open>
  The recomputation of the acceleration after the scale has changed: the gyro values
  stay as they are.
\<close>

definition recalc :: "'f float_ops \<Rightarrow> 'f loop_state \<Rightarrow> icm42688_sample_s \<Rightarrow> 'f phys \<Rightarrow> 'f phys" where
  "recalc fl st s p =
     (let ax = fdiv fl (fof_int fl (sint (accel_x s))) (accel_lsb_per_g st);
          ay = fdiv fl (fof_int fl (sint (accel_y s))) (accel_lsb_per_g st);
          az = fdiv fl (fof_int fl (sint (accel_z s))) (accel_lsb_per_g st)
      in p\<lparr>ax_g := ax, ay_g := ay, az_g := az, anorm := norm3 fl ax ay az\<rparr>)"

text \<open>The scale sanity check: the \<open>if / else if / else\<close> on the norm of the acceleration.\<close>

definition sanity_check ::
  "'f float_ops \<Rightarrow> icm42688_sample_s \<Rightarrow> 'f loop_state \<Rightarrow> 'f phys \<Rightarrow> 'f loop_state \<times> 'f phys" where
  "sanity_check fl s st p =
     (if fs_ready st \<and> \<not> accel_scale_sanity_fixed st
         \<and> (flt fl (lit fl 1.7) (anorm p) \<and> flt fl (anorm p) (lit fl 2.3)) then
        (let st1 = st\<lparr>anorm_high_cnt := anorm_high_cnt st + 1\<rparr>
         in if anorm_trigger_frames \<le> anorm_high_cnt st1
               \<and> flt fl (accel_lsb_per_g st1) (lit fl 65536.0) then
              (let st2 = st1\<lparr>accel_lsb_per_g := fmul fl (accel_lsb_per_g st1) (lit fl 2.0),
                              accel_scale_sanity_fixed := True,
                              anorm_high_cnt := 0, anorm_low_cnt := 0\<rparr>
               in (st2, recalc fl st2 s p))
            else (st1, p))
      else if fs_ready st \<and> \<not> accel_scale_sanity_fixed st
         \<and> (flt fl (lit fl 0.45) (anorm p) \<and> flt fl (anorm p) (lit fl 0.65)) then
        (let st1 = st\<lparr>anorm_low_cnt := anorm_low_cnt st + 1\<rparr>
         in if anorm_trigger_frames \<le> anorm_low_cnt st1
               \<and> flt fl (lit fl 512.0) (accel_lsb_per_g st1) then
              (let st2 = st1\<lparr>accel_lsb_per_g := fmul fl (accel_lsb_per_g st1) (lit fl 0.5),
                              accel_scale_sanity_fixed := True,
                              anorm_high_cnt := 0, anorm_low_cnt := 0\<rparr>
               in (st2, recalc fl st2 s p))
            else (st1, p))
      else
        (let st1 = (if fle fl (anorm p) (lit fl 1.7) \<or> fle fl (lit fl 2.3) (anorm p)
                    then st\<lparr>anorm_high_cnt := 0\<rparr> else st);
             st2 = (if fle fl (anorm p) (lit fl 0.45) \<or> fle fl (lit fl 0.65) (anorm p)
                    then st1\<lparr>anorm_low_cnt := 0\<rparr> else st1)
         in (st2, p)))"

text \<open>\<open>bool stable = ...\<close>, from \<open>gyro_abs_max\<close> and the norm after the sanity check.\<close>

definition stable :: "'f float_ops \<Rightarrow> 'f \<Rightarrow> 'f \<Rightarrow> bool" where
  "stable fl gmax an \<longleftrightarrow>
     flt fl gmax (gyro_stable_dps fl)
     \<and> flt fl (fabs fl (fsub fl an (lit fl 1.0))) (accel_norm_tolerance_g fl)"

text \<open>\<open>(1.0f - beta_bias) * bias + beta_bias * value\<close>\<close>

definition ema :: "'f float_ops \<Rightarrow> 'f \<Rightarrow> 'f \<Rightarrow> 'f" where
  "ema fl bias v =
     fadd fl (fmul fl (fsub fl (lit fl 1.0) (beta_bias fl)) bias) (fmul fl (beta_bias fl) v)"

definition bias_update :: "'f float_ops \<Rightarrow> bool \<Rightarrow> 'f loop_state \<Rightarrow> 'f phys \<Rightarrow> 'f loop_state" where
  "bias_update fl stb st p =
     (if stb then
        st\<lparr>gx_bias := ema fl (gx_bias st) (gx_dps p),
           gy_bias := ema fl (gy_bias st) (gy_dps p),
           gz_bias := ema fl (gz_bias st) (gz_dps p),
           ax_bias := ema fl (ax_bias st) (ax_g p),
           ay_bias := ema fl (ay_bias st) (ay_g p),
           az_bias := ema fl (az_bias st) (az_g p)\<rparr>
      else st)"

definition remove_bias :: "'f float_ops \<Rightarrow> 'f loop_state \<Rightarrow> 'f phys \<Rightarrow> 'f phys" where
  "remove_bias fl st p =
     p\<lparr>ax_g := fsub fl (ax_g p) (ax_bias st),
       ay_g := fsub fl (ay_g p) (ay_bias st),
       az_g := fsub fl (az_g p) (az_bias st),
       gx_dps := fsub fl (gx_dps p) (gx_bias st),
       gy_dps := fsub fl (gy_dps p) (gy_bias st),
       gz_dps := fsub fl (gz_dps p) (gz_bias st)\<rparr>"

text \<open>\<open>alpha * value + (1.0f - alpha) * filtered\<close>\<close>

definition iir :: "'f float_ops \<Rightarrow> 'f \<Rightarrow> 'f \<Rightarrow> 'f" where
  "iir fl v f =
     fadd fl (fmul fl (alpha fl) v) (fmul fl (fsub fl (lit fl 1.0) (alpha fl)) f)"

definition iir_filter :: "'f float_ops \<Rightarrow> 'f loop_state \<Rightarrow> 'f phys \<Rightarrow> 'f loop_state" where
  "iir_filter fl st p =
     (if \<not> filt_init st then
        st\<lparr>fax := ax_g p, fay := ay_g p, faz := az_g p,
           fgx := gx_dps p, fgy := gy_dps p, fgz := gz_dps p, filt_init := True\<rparr>
      else
        st\<lparr>fax := iir fl (ax_g p) (fax st),
           fay := iir fl (ay_g p) (fay st),
           faz := iir fl (az_g p) (faz st),
           fgx := iir fl (gx_dps p) (fgx st),
           fgy := iir fl (gy_dps p) (fgy st),
           fgz := iir fl (gz_dps p) (fgz st)\<rparr>)"

text \<open>The rate-limited output: the six filtered values on every tenth accepted frame.\<close>

definition print_step :: "'f loop_state \<Rightarrow> 'f loop_state \<times> 'f list option" where
  "print_step st =
     (let st1 = st\<lparr>print_count := print_count st + 1\<rparr>
      in if print_every_n \<le> print_count st1
         then (st1\<lparr>print_count := 0\<rparr>,
               Some [fax st1, fay st1, faz st1, fgx st1, fgy st1, fgz st1])
         else (st1, None))"

text \<open>
  The part of the loop body that runs once the scales are known, from the conversion of
  the raw counts to the output.
\<close>

definition process_sample ::
  "'f float_ops \<Rightarrow> icm42688_sample_s \<Rightarrow> 'f loop_state \<Rightarrow> 'f loop_state \<times> 'f list option" where
  "process_sample fl s st =
     (let p0 = convert fl st s
      in if \<not> fs_ready st then (st, None)
         else
           (let gmax = gyro_abs_max fl p0;
                (st1, p1) = sanity_check fl s st p0;
                stb = stable fl gmax (anorm p1);
                st2 = bias_update fl stb st1 p1;
                p2 = remove_bias fl st2 p1;
                st3 = iir_filter fl st2 p2
            in print_step st3))"

text \<open>
  One iteration of the \<open>while (1)\<close> loop. \<open>read\<close> and \<open>ioctl\<close> are system calls:
  \<open>rd\<close> is the sample that \<open>read\<close> delivered (\<open>None\<close> when it did not return the 12
  bytes of a sample) and \<open>ioc\<close> is what \<open>ioctl(fd, 0x1301, scales)\<close> gives if it is
  called in this iteration: its return value and the two scales.
\<close>

definition loop_body ::
  "'f float_ops \<Rightarrow> icm42688_sample_s option \<Rightarrow> int \<times> 32 word \<times> 32 word \<Rightarrow> 'f loop_state
     \<Rightarrow> 'f loop_state \<times> 'f list option" where
  "loop_body fl rd ioc st =
     (case rd of
        None \<Rightarrow> (st, None)
      | Some s \<Rightarrow>
          if first st then (st\<lparr>first := False\<rparr>, None)
          else if \<not> fs_ready st then
            (case ioc of (ret, scales0, scales1) \<Rightarrow>
               if ret = 0 then
                 process_sample fl s
                   (st\<lparr>accel_lsb_per_g := fof_int fl (uint scales0),
                       gyro_lsb_per_dps := fdiv fl (fof_int fl (uint scales1)) (lit fl 10.0),
                       fs_ready := True\<rparr>)
               else (st, None))
          else process_sample fl s st)"

text \<open>The loop run over a finite sequence of iterations; the outputs are dropped.\<close>

fun run_loop ::
  "'f float_ops \<Rightarrow> (icm42688_sample_s option \<times> int \<times> 32 word \<times> 32 word) list
     \<Rightarrow> 'f loop_state \<Rightarrow> 'f loop_state" where
  "run_loop fl [] st = st"
| "run_loop fl ((rd, ioc) # rest) st = run_loop fl rest (fst (loop_body fl rd ioc st))"

section \<open>Instances for concrete runs\<close>

text \<open>
  Exact arithmetic on the reals as an instance of the floating-point parameter. It is
  used on inputs whose values (small integers and powers of two) the C \<open>float\<close>
  operations compute without rounding.
\<close>

definition real_ops :: "real float_ops" where
  "real_ops =
     \<lparr>lit = (\<lambda>x. x), fof_int = real_of_int,
      fadd = (\<lambda>a b. a + b), fsub = (\<lambda>a b. a - b),
      fmul = (\<lambda>a b. a * b), fdiv = (\<lambda>a b. a / b),
      fsqrt = sqrt, fabs = abs,
      flt = (\<lambda>a b. a < b), fle = (\<lambda>a b. a \<le> b)\<rparr>"

text \<open>
  A scripted bus: its state is the number of transfers made so far, and the \<open>n\<close>-th
  transfer answers \<open>resp n\<close>, a result code and the bytes read.
\<close>

definition sim_i2c :: "(nat \<Rightarrow> int \<times> (nat \<Rightarrow> 8 word)) \<Rightarrow> nat i2c_master_s" where
  "sim_i2c resp n msgs = (fst (resp n), snd (resp n), Suc n)"

definition sim_dev :: "(nat \<Rightarrow> int \<times> (nat \<Rightarrow> 8 word)) \<Rightarrow> nat icm42688_dev_s" where
  "sim_dev resp = \<lparr>i2c = sim_i2c resp, i2c_freq = 400000, i2c_addr = 0x68\<rparr>"

definition sim_cfg :: "(nat \<Rightarrow> int \<times> (nat \<Rightarrow> 8 word)) \<Rightarrow> nat icm42688_config_s" where
  "sim_cfg resp = \<lparr>cfg_i2c = Some (sim_i2c resp), cfg_addr = 0x68, cfg_freq = 400000\<rparr>"

definition sim_env :: os_env where
  "sim_env = \<lparr>kmm_malloc_ok = True, register_driver = (\<lambda>path. 0)\<rparr>"

text \<open>A 16-byte frame whose accel X word is \<open>0x4000\<close> and whose other bytes are zero.\<close>

definition frame_ax_4000 :: "nat \<Rightarrow> 8 word" where
  "frame_ax_4000 i = (if i = 1 then 0x40 else 0)"

section \<open>Notions for stating the properties\<close>

text \<open>
  One attempt of the identity check: the read of the identity register that the loop
  body makes, whether it passes the loop's test, and the bus afterwards.
\<close>

definition whoami_attempt :: "'b icm42688_dev_s \<Rightarrow> 'b \<Rightarrow> bool \<times> 'b" where
  "whoami_attempt dev b =
     (let ((ret, id), b') = icm_i2c_read dev ICM_REG_WHO_AM_I 1 b
      in (ret = OK \<and> id 0 = ICM_WHOAMI_EXPECTED, b'))"

text \<open>The bus after \<open>k\<close> attempts in a row.\<close>

fun after_attempts :: "'b icm42688_dev_s \<Rightarrow> nat \<Rightarrow> 'b \<Rightarrow> 'b" where
  "after_attempts dev 0 b = b"
| "after_attempts dev (Suc k) b = after_attempts dev k (snd (whoami_attempt dev b))"

text \<open>
  A bus on which every transfer succeeds and the identity register reads \<open>0x47\<close> only
  in the transfer number 50: after the reset write (transfer 0), the attempts 1 to 49
  of the identity check read a wrong byte and the attempt 50 reads the right one.
\<close>

definition resp_whoami_50th :: "nat \<Rightarrow> int \<times> (nat \<Rightarrow> 8 word)" where
  "resp_whoami_50th n = (0, \<lambda>i. if n = 50 then 0x47 else 0)"

text \<open>
  Two buses for the configuration step. On both, the reset write is transfer 0 and the
  identity register reads \<open>0x47\<close> at once (transfer 1), so the five configuration
  writes are the transfers 2 to 6. On the first bus the two FIFO writes (transfers 5
  and 6) fail; on the second the power-mode write (transfer 2) fails.
\<close>

definition resp_fifo_cfg_fails :: "nat \<Rightarrow> int \<times> (nat \<Rightarrow> 8 word)" where
  "resp_fifo_cfg_fails n = (if n = 5 \<or> n = 6 then - 5 else 0, \<lambda>i. 0x47)"

definition resp_pwr_fails :: "nat \<Rightarrow> int \<times> (nat \<Rightarrow> 8 word)" where
  "resp_pwr_fails n = (if n = 2 then - 5 else 0, \<lambda>i. 0x47)"

text \<open>
  Three buses for the scale query, whose three transfers are the reads of the accel
  configuration, of the gyro configuration and of the 12 data bytes. On the first the
  data read fails. On the second the accel selector is 3 (2048 counts per g) and the
  data bytes hold the accel Z word \<open>0x2000\<close>, which the parser turns into 4096
  counts: a norm of 2 g. On the third the accel selector is 3 as well and the data
  bytes hold the accel words \<open>0xF600\<close>, \<open>0x1400\<close>, \<open>0x1400\<close>, which the parser
  turns into the counts -1280, 2560, 2560: the accelerations -0.625 g, 1.25 g and
  1.25 g, whose norm is 1.875 g.
\<close>

definition resp_probe_fails :: "nat \<Rightarrow> int \<times> (nat \<Rightarrow> 8 word)" where
  "resp_probe_fails n = (if n = 2 then - 5 else 0, \<lambda>i. 0x66)"

definition resp_probe_2g :: "nat \<Rightarrow> int \<times> (nat \<Rightarrow> 8 word)" where
  "resp_probe_2g n =
     (0, if n = 0 then (\<lambda>i. 0x30) else if n = 1 then (\<lambda>i. 0x66)
         else (\<lambda>i. if i = 4 then 0x20 else 0))"

definition resp_probe_3axis :: "nat \<Rightarrow> int \<times> (nat \<Rightarrow> 8 word)" where
  "resp_probe_3axis n =
     (0, if n = 0 then (\<lambda>i. 0x30) else if n = 1 then (\<lambda>i. 0x66)
         else (\<lambda>i. if i = 0 then 0xF6 else if i = 2 \<or> i = 4 then 0x14 else 0))"

text \<open>A bus on which every transfer fails with the code \<open>-5\<close>.\<close>

definition resp_bus_down :: "nat \<Rightarrow> int \<times> (nat \<Rightarrow> 8 word)" where
  "resp_bus_down n = (- 5, \<lambda>i. 0)"


definition filtered :: "'f loop_state \<Rightarrow> 'f list" where
  "filtered st = [fax st, fay st, faz st, fgx st, fgy st, fgz st]"

definition values6 :: "'f phys \<Rightarrow> 'f list" where
  "values6 p = [ax_g p, ay_g p, az_g p, gx_dps p, gy_dps p, gz_dps p]"

text \<open>
  Frames for runs of the loop on exact arithmetic: all raw counts are zero but the accel
  Z count, and the scale query, when it is made, answers 2048 counts per g and 16.4
  counts per dps. With 2048 counts per g the counts 1024 and 4096 are accelerations of
  0.5 g and 2 g.
\<close>

definition sample_az :: "16 word \<Rightarrow> icm42688_sample_s" where
  "sample_az z = \<lparr>accel_x = 0, accel_y = 0, accel_z = z, gyro_x = 0, gyro_y = 0, gyro_z = 0\<rparr>"

definition low_frame :: "icm42688_sample_s option \<times> int \<times> 32 word \<times> 32 word" where
  "low_frame = (Some (sample_az 1024), (0, 2048, 164))"

definition high_frame :: "icm42688_sample_s option \<times> int \<times> 32 word \<times> 32 word" where
  "high_frame = (Some (sample_az 4096), (0, 2048, 164))"

text \<open>
  What the device sends for these frames and for that answer. A 16-byte FIFO packet
  whose accel Z word has the high byte \<open>hi\<close> and whose other bytes are zero: the high
  bytes \<open>0x10\<close> and \<open>0x40\<close> are the words 4096 and 16384, which the driver delivers
  as the counts 1024 and 4096. And a bus for the scale query on which the accel
  configuration reads \<open>0x30\<close> (selector 3), the gyro configuration reads \<open>0x00\<close>
  (selector 0) and the 12 data bytes are zero.
\<close>

definition fifo_packet_az :: "8 word \<Rightarrow> nat \<Rightarrow> 8 word" where
  "fifo_packet_az hi i = (if i = 5 then hi else 0)"

definition resp_scales_2048_164 :: "nat \<Rightarrow> int \<times> (nat \<Rightarrow> 8 word)" where
  "resp_scales_2048_164 n = (0, if n = 0 then (\<lambda>i. 0x30) else (\<lambda>i. 0))"

text \<open>
  The state of the loop after the first frame has been dropped, the scales have been
  fetched and four frames of 0.5 g have been processed.
\<close>

definition st_four_low :: "real loop_state" where
  "st_four_low =
     \<lparr>first = False, accel_lsb_per_g = 2048, gyro_lsb_per_dps = 16.4, fs_ready = True,
      ax_bias = 0, ay_bias = 0, az_bias = 0, gx_bias = 0, gy_bias = 0, gz_bias = 0,
      filt_init = True, fax = 0, fay = 0, faz = 0.5, fgx = 0, fgy = 0, fgz = 0,
      accel_scale_sanity_fixed = False, anorm_high_cnt = 0, anorm_low_cnt = 4,
      print_count = 4\<rparr>"

text \<open>
  A state in which the scales are known (16384 counts per g) and nothing else has
  happened yet.
\<close>

definition st_ready :: "real loop_state" where
  "st_ready =
     (init_state real_ops)\<lparr>first := False, fs_ready := True, accel_lsb_per_g := 16384\<rparr>"

section \<open>Properties of the frame decoder\<close>

lemma asr1_eq: "asr1 r = signed_drop_bit 1 r"
proof -
  have "sint (signed_drop_bit 1 r) = drop_bit 1 (sint r)"
    by (rule sint_signed_drop_bit_eq)
  then have "word_of_int (drop_bit 1 (sint r))
             = (word_of_int (sint (signed_drop_bit 1 r)) :: 16 word)"
    by simp
  then show ?thesis by (simp add: asr1_def)
qed

lemma asr1_twice: "asr1 (asr1 r) = signed_drop_bit 2 r"
  by (simp add: asr1_eq numeral_2_eq_2)

lemma icm_parse_fifo_sample_16:
  "icm_parse_fifo_sample fifo_buf ICM_FIFO_READ_LEN =
     Inr \<lparr>accel_x = signed_drop_bit 1 (be16 (fifo_buf 1) (fifo_buf 2)),
          accel_y = signed_drop_bit 1 (be16 (fifo_buf 3) (fifo_buf 4)),
          accel_z = signed_drop_bit 1 (be16 (fifo_buf 5) (fifo_buf 6)),
          gyro_x = be16 (fifo_buf 7) (fifo_buf 8),
          gyro_y = be16 (fifo_buf 9) (fifo_buf 10),
          gyro_z = be16 (fifo_buf 11) (fifo_buf 12)\<rparr>"
  by (simp add: icm_parse_fifo_sample_def asr1_eq)

text \<open>
  What the read path does with a frame that the bus delivered: the parser's shift is
  followed by a second one, so each accel axis is the raw word shifted right by two.
\<close>

lemma icm_read_fifo_packet_ok:
  assumes "icm_i2c_read dev ICM_REG_FIFO_DATA ICM_FIFO_READ_LEN b = ((OK, fifo_buf), b')"
  shows "icm_read_fifo_packet dev b =
     (Inr \<lparr>accel_x = signed_drop_bit 2 (be16 (fifo_buf 1) (fifo_buf 2)),
           accel_y = signed_drop_bit 2 (be16 (fifo_buf 3) (fifo_buf 4)),
           accel_z = signed_drop_bit 2 (be16 (fifo_buf 5) (fifo_buf 6)),
           gyro_x = be16 (fifo_buf 7) (fifo_buf 8),
           gyro_y = be16 (fifo_buf 9) (fifo_buf 10),
           gyro_z = be16 (fifo_buf 11) (fifo_buf 12)\<rparr>, b')"
  using assms
  by (simp add: icm_read_fifo_packet_def icm_parse_fifo_sample_def asr1_twice OK_def
      ICM_FIFO_READ_LEN_def)

text \<open>
  C1. The claim says that on the fetch-one-sample path each accel axis is the raw
  big-endian word shifted right by one. At the frame whose accel X word is \<open>0x4000\<close>
  (16384) the word shifted by one is 8192, but both \<open>read\<close> and the fetch-one-sample
  command deliver 4096: \<open>icm_read_fifo_packet\<close> shifts again what
  \<open>icm_parse_fifo_sample\<close> has already shifted.
\<close>

theorem fetch_sample_accel_shifted_twice:
  "signed_drop_bit 1 (be16 (frame_ax_4000 1) (frame_ax_4000 2)) = 8192
   \<and> fst (icm_read_dev (sim_dev (\<lambda>n. (0, frame_ax_4000))) sizeof_sample 0) =
       Inr \<lparr>accel_x = 4096, accel_y = 0, accel_z = 0, gyro_x = 0, gyro_y = 0, gyro_z = 0\<rparr>
   \<and> fst (icm_ioctl_dev real_ops (sim_dev (\<lambda>n. (0, frame_ax_4000))) ICM_IOCTL_GET_SAMPLE False 0) =
       (OK, OutSample
          \<lparr>accel_x = 4096, accel_y = 0, accel_z = 0, gyro_x = 0, gyro_y = 0, gyro_z = 0\<rparr>)"
  by (simp add: icm_ioctl_dev_def icm_read_dev_def icm_read_oneshot_def sizeof_sample_def
      icm_read_fifo_packet_def icm_i2c_read_def sim_dev_def sim_i2c_def OK_def
      ICM_FIFO_READ_LEN_def icm_parse_fifo_sample_def frame_ax_4000_def asr1_def be16_def)

section \<open>Bring-up: the identity check\<close>

declare whoami_loop.simps [simp del]

lemma whoami_loop_step:
  "i < 50 \<Longrightarrow> whoami_loop dev i b =
     (if fst (whoami_attempt dev b) then (OK, snd (whoami_attempt dev b))
      else whoami_loop dev (Suc i) (snd (whoami_attempt dev b)))"
  by (subst whoami_loop.simps) (simp add: whoami_attempt_def split: prod.splits)

lemma whoami_loop_done: "\<not> i < 50 \<Longrightarrow> whoami_loop dev i b = (- ENODEV, b)"
  by (subst whoami_loop.simps) simp

lemma whoami_loop_succeeds:
  "k < 50 - i \<Longrightarrow> \<forall>j<k. \<not> fst (whoami_attempt dev (after_attempts dev j b)) \<Longrightarrow>
   fst (whoami_attempt dev (after_attempts dev k b)) \<Longrightarrow>
   whoami_loop dev i b = (OK, after_attempts dev (Suc k) b)"
proof (induction k arbitrary: i b)
  case 0
  then show ?case by (simp add: whoami_loop_step)
next
  case (Suc k)
  have first_fails: "\<not> fst (whoami_attempt dev b)"
    using Suc.prems(2) by (metis after_attempts.simps(1) zero_less_Suc)
  have rest: "\<forall>j<k. \<not> fst (whoami_attempt dev
                 (after_attempts dev j (snd (whoami_attempt dev b))))"
    using Suc.prems(2) by (metis Suc_less_eq after_attempts.simps(2))
  have "whoami_loop dev (Suc i) (snd (whoami_attempt dev b)) =
          (OK, after_attempts dev (Suc k) (snd (whoami_attempt dev b)))"
    using Suc.prems(1,3) rest by (intro Suc.IH) simp_all
  with first_fails Suc.prems(1) show ?case
    by (simp add: whoami_loop_step)
qed

lemma whoami_loop_fails:
  "n = 50 - i \<Longrightarrow> \<forall>j<n. \<not> fst (whoami_attempt dev (after_attempts dev j b)) \<Longrightarrow>
   whoami_loop dev i b = (- ENODEV, after_attempts dev n b)"
proof (induction n arbitrary: i b)
  case 0
  then show ?case by (simp add: whoami_loop_done)
next
  case (Suc n)
  have first_fails: "\<not> fst (whoami_attempt dev b)"
    using Suc.prems(2) by (metis after_attempts.simps(1) zero_less_Suc)
  have rest: "\<forall>j<n. \<not> fst (whoami_attempt dev
                 (after_attempts dev j (snd (whoami_attempt dev b))))"
    using Suc.prems(2) by (metis Suc_less_eq after_attempts.simps(2))
  have "whoami_loop dev (Suc i) (snd (whoami_attempt dev b)) =
          (- ENODEV, after_attempts dev n (snd (whoami_attempt dev b)))"
    using Suc.prems(1) rest by (intro Suc.IH) simp_all
  moreover have "i < 50" using Suc.prems(1) by simp
  ultimately show ?case using first_fails
    by (simp add: whoami_loop_step)
qed


lemma register_identified:
  assumes "cfg_i2c c = Some (i2c dev)"
    and "i2c_freq dev = (if cfg_freq c \<noteq> 0 then cfg_freq c else 400000)"
    and "i2c_addr dev = cfg_addr c"
    and "kmm_malloc_ok env"
    and "icm_reset dev b = (OK, b1)"
    and "icm_check_whoami dev b1 = (OK, b2)"
  shows "icm42688_register env path (Some c) b =
     (let (ret, b5) = icm_configure_default dev b2
      in if ret < 0 then (ret, None, b5)
         else (let r = register_driver env path
               in if r < 0 then (r, None, b5) else (OK, Some dev, b5)))"
proof -
  have dev_eq: "\<lparr>i2c = i2c dev,
                 i2c_freq = (if cfg_freq c \<noteq> 0 then cfg_freq c else 400000),
                 i2c_addr = cfg_addr c\<rparr> = dev"
    using assms(2,3) by simp
  show ?thesis
    using assms(1,4,5,6)
    by (simp add: icm42688_register_def dev_eq OK_def split: prod.splits)
qed

text \<open>
  C8. The identity check makes at most 50 attempts. It returns \<open>OK\<close> at the first
  attempt that reads the expected byte, having made no further read, and it returns
  \<open>-ENODEV\<close> only after 50 failed attempts. In particular, when the first 49 attempts
  fail and the 50th succeeds, registration goes on to the configuration at the address
  it was given, with no second reset and no second identity check, and succeeds when
  the configuration and the registration of the driver do.
\<close>

theorem identity_check_retries:
  "(\<forall>k<50. (\<forall>j<k. \<not> fst (whoami_attempt dev (after_attempts dev j b)))
              \<and> fst (whoami_attempt dev (after_attempts dev k b))
        \<longrightarrow> icm_check_whoami dev b = (OK, after_attempts dev (Suc k) b))
   \<and> ((\<forall>j<50. \<not> fst (whoami_attempt dev (after_attempts dev j b)))
        \<longrightarrow> icm_check_whoami dev b = (- ENODEV, after_attempts dev 50 b))
   \<and> (cfg_i2c c = Some (i2c dev)
        \<and> i2c_freq dev = (if cfg_freq c \<noteq> 0 then cfg_freq c else 400000)
        \<and> i2c_addr dev = cfg_addr c
        \<and> kmm_malloc_ok env
        \<and> icm_reset dev b0 = (OK, b)
        \<and> (\<forall>j<49. \<not> fst (whoami_attempt dev (after_attempts dev j b)))
        \<and> fst (whoami_attempt dev (after_attempts dev 49 b))
        \<and> icm_configure_default dev (after_attempts dev 50 b) = (OK, b5)
        \<and> 0 \<le> register_driver env path
        \<longrightarrow> icm42688_register env path (Some c) b0 = (OK, Some dev, b5))"
proof (intro conjI allI impI)
  fix k :: nat
  assume "k < 50"
    and "(\<forall>j<k. \<not> fst (whoami_attempt dev (after_attempts dev j b)))
         \<and> fst (whoami_attempt dev (after_attempts dev k b))"
  then show "icm_check_whoami dev b = (OK, after_attempts dev (Suc k) b)"
    unfolding icm_check_whoami_def by (intro whoami_loop_succeeds) simp_all
next
  assume "\<forall>j<50. \<not> fst (whoami_attempt dev (after_attempts dev j b))"
  then show "icm_check_whoami dev b = (- ENODEV, after_attempts dev 50 b)"
    unfolding icm_check_whoami_def by (intro whoami_loop_fails) simp_all
next
  assume h: "cfg_i2c c = Some (i2c dev)
        \<and> i2c_freq dev = (if cfg_freq c \<noteq> 0 then cfg_freq c else 400000)
        \<and> i2c_addr dev = cfg_addr c
        \<and> kmm_malloc_ok env
        \<and> icm_reset dev b0 = (OK, b)
        \<and> (\<forall>j<49. \<not> fst (whoami_attempt dev (after_attempts dev j b)))
        \<and> fst (whoami_attempt dev (after_attempts dev 49 b))
        \<and> icm_configure_default dev (after_attempts dev 50 b) = (OK, b5)
        \<and> 0 \<le> register_driver env path"
  have "whoami_loop dev 0 b = (OK, after_attempts dev (Suc 49) b)"
    using h by (intro whoami_loop_succeeds) simp_all
  then have who: "icm_check_whoami dev b = (OK, after_attempts dev 50 b)"
    by (simp add: icm_check_whoami_def)
  show "icm42688_register env path (Some c) b0 = (OK, Some dev, b5)"
    using h register_identified [of c dev env b0 b "after_attempts dev 50 b" path] who
    by (simp add: OK_def)
qed

lemma after_attempts_sim: "after_attempts (sim_dev resp) k n = n + k"
  by (induction k arbitrary: n)
     (simp_all add: whoami_attempt_def icm_i2c_read_def sim_dev_def sim_i2c_def)

lemma whoami_attempt_sim_50th:
  "fst (whoami_attempt (sim_dev resp_whoami_50th) n) \<longleftrightarrow> n = 50"
  by (simp add: whoami_attempt_def icm_i2c_read_def sim_dev_def sim_i2c_def
      resp_whoami_50th_def OK_def ICM_WHOAMI_EXPECTED_def)

lemma write1_sim_ok:
  "icm_i2c_write1 (sim_dev resp_whoami_50th) reg val n = (OK, Suc n)"
  by (simp add: icm_i2c_write1_def sim_dev_def sim_i2c_def resp_whoami_50th_def OK_def)

theorem identity_check_retries_witness:
  "\<not> fst (whoami_attempt (sim_dev resp_whoami_50th)
              (after_attempts (sim_dev resp_whoami_50th) 0 1))
   \<and> \<not> fst (whoami_attempt (sim_dev resp_whoami_50th)
              (after_attempts (sim_dev resp_whoami_50th) 48 1))
   \<and> fst (whoami_attempt (sim_dev resp_whoami_50th)
            (after_attempts (sim_dev resp_whoami_50th) 49 1))
   \<and> icm_check_whoami (sim_dev resp_whoami_50th) 1 = (OK, 51)
   \<and> icm42688_register sim_env ''/dev/imu0'' (Some (sim_cfg resp_whoami_50th)) 0
       = (OK, Some (sim_dev resp_whoami_50th), 56)"
proof -
  let ?d = "sim_dev resp_whoami_50th"
  have fails: "\<forall>j<49. \<not> fst (whoami_attempt ?d (after_attempts ?d j 1))"
    by (simp add: after_attempts_sim whoami_attempt_sim_50th)
  have hit: "fst (whoami_attempt ?d (after_attempts ?d 49 1))"
    by (simp add: after_attempts_sim whoami_attempt_sim_50th)
  have reset: "icm_reset ?d 0 = (OK, 1)"
    by (simp add: icm_reset_def write1_sim_ok OK_def)
  have conf: "icm_configure_default ?d (after_attempts ?d 50 1) = (OK, 56)"
    by (simp add: icm_configure_default_def write1_sim_ok after_attempts_sim OK_def)
  have cfg: "cfg_i2c (sim_cfg resp_whoami_50th) = Some (i2c ?d)
      \<and> i2c_freq ?d = (if cfg_freq (sim_cfg resp_whoami_50th) \<noteq> 0
                         then cfg_freq (sim_cfg resp_whoami_50th) else 400000)
      \<and> i2c_addr ?d = cfg_addr (sim_cfg resp_whoami_50th)
      \<and> kmm_malloc_ok sim_env \<and> 0 \<le> register_driver sim_env ''/dev/imu0''"
    by (simp add: sim_cfg_def sim_dev_def sim_env_def)
  note inst = identity_check_retries [of ?d 1 "sim_cfg resp_whoami_50th" sim_env 0 56 "''/dev/imu0''"]
  have who: "icm_check_whoami ?d 1 = (OK, after_attempts ?d (Suc 49) 1)"
    using inst [THEN conjunct1, rule_format, of 49] fails hit by simp
  have reg: "icm42688_register sim_env ''/dev/imu0'' (Some (sim_cfg resp_whoami_50th)) 0
       = (OK, Some ?d, 56)"
    using inst [THEN conjunct2, THEN conjunct2, rule_format] fails hit reset conf cfg
    by simp
  from hit who reg show ?thesis
    by (simp add: after_attempts_sim whoami_attempt_sim_50th)
qed

section \<open>Bring-up: the configuration step\<close>

lemma register_fallback:
  assumes "cfg_i2c c = Some (i2c dev)"
    and "i2c_freq dev = (if cfg_freq c \<noteq> 0 then cfg_freq c else 400000)"
    and "i2c_addr dev = cfg_addr c"
    and "kmm_malloc_ok env"
    and "icm_reset dev b = (OK, b1)"
    and "icm_check_whoami dev b1 = (r, b2)" and "r < 0"
    and "alt = dev\<lparr>i2c_addr := (if i2c_addr dev = 0x68 then 0x69 else 0x68)\<rparr>"
    and "icm_reset alt b2 = (OK, b3)"
    and "icm_check_whoami alt b3 = (OK, b4)"
  shows "icm42688_register env path (Some c) b =
     (let (ret, b5) = icm_configure_default alt b4
      in if ret < 0 then (ret, None, b5)
         else (let r = register_driver env path
               in if r < 0 then (r, None, b5) else (OK, Some alt, b5)))"
proof -
  have dev_eq: "\<lparr>i2c = i2c dev,
                 i2c_freq = (if cfg_freq c \<noteq> 0 then cfg_freq c else 400000),
                 i2c_addr = cfg_addr c\<rparr> = dev"
    using assms(2,3) by simp
  show ?thesis
    using assms(1,4,5,6,7,9,10)
    by (simp add: icm42688_register_def dev_eq Let_def OK_def assms(8) [symmetric]
        split: prod.splits)
qed

lemma configure_first_fails:
  "icm_i2c_write1 dev ICM_REG_PWR_MGMT0 ICM_PWR_LN_GYRO_ACCEL b = (r, b1) \<Longrightarrow> r < 0 \<Longrightarrow>
   icm_configure_default dev b = (r, b1)"
  by (simp add: icm_configure_default_def)

lemma configure_second_fails:
  "icm_i2c_write1 dev ICM_REG_PWR_MGMT0 ICM_PWR_LN_GYRO_ACCEL b = (OK, b1) \<Longrightarrow>
   icm_i2c_write1 dev ICM_REG_GYRO_CONFIG0 0x66 b1 = (r, b2) \<Longrightarrow> r < 0 \<Longrightarrow>
   icm_configure_default dev b = (r, b2)"
  by (simp add: icm_configure_default_def OK_def)

lemma configure_third_fails:
  "icm_i2c_write1 dev ICM_REG_PWR_MGMT0 ICM_PWR_LN_GYRO_ACCEL b = (OK, b1) \<Longrightarrow>
   icm_i2c_write1 dev ICM_REG_GYRO_CONFIG0 0x66 b1 = (OK, b2) \<Longrightarrow>
   icm_i2c_write1 dev ICM_REG_ACCEL_CONFIG0 0x66 b2 = (r, b3) \<Longrightarrow> r < 0 \<Longrightarrow>
   icm_configure_default dev b = (r, b3)"
  by (simp add: icm_configure_default_def OK_def)

lemma configure_three_ok:
  "icm_i2c_write1 dev ICM_REG_PWR_MGMT0 ICM_PWR_LN_GYRO_ACCEL b = (OK, b1) \<Longrightarrow>
   icm_i2c_write1 dev ICM_REG_GYRO_CONFIG0 0x66 b1 = (OK, b2) \<Longrightarrow>
   icm_i2c_write1 dev ICM_REG_ACCEL_CONFIG0 0x66 b2 = (OK, b3) \<Longrightarrow>
   icm_configure_default dev b =
     (OK, snd (icm_i2c_write1 dev ICM_REG_FIFO_CONFIGURATION 0x07
                 (snd (icm_i2c_write1 dev ICM_REG_FIFO_CONFIG_INIT 0x40 b3))))"
  by (simp add: icm_configure_default_def OK_def split: prod.splits)

lemma whoami_loop_sim_hit:
  "i < 50 \<Longrightarrow> fst (resp n) = 0 \<Longrightarrow> snd (resp n) 0 = 0x47 \<Longrightarrow>
   whoami_loop (sim_dev resp) i n = (OK, Suc n)"
  by (subst whoami_loop.simps)
     (simp add: icm_i2c_read_def sim_dev_def sim_i2c_def OK_def ICM_WHOAMI_EXPECTED_def)

text \<open>
  C3, as claimed, fails: on a bus where both FIFO writes of the configuration step fail,
  \<open>icm_configure_default\<close> still returns \<open>OK\<close> and the registration succeeds. The
  code discards the results of these two writes on purpose.
\<close>

theorem configure_fifo_write_failure_ignored:
  "fst (icm_i2c_write1 (sim_dev resp_fifo_cfg_fails) ICM_REG_FIFO_CONFIG_INIT 0x40 5) = - EIO
   \<and> fst (icm_i2c_write1 (sim_dev resp_fifo_cfg_fails) ICM_REG_FIFO_CONFIGURATION 0x07 6) = - EIO
   \<and> icm_configure_default (sim_dev resp_fifo_cfg_fails) 2 = (OK, 7)
   \<and> icm42688_register sim_env ''/dev/imu0'' (Some (sim_cfg resp_fifo_cfg_fails)) 0
       = (OK, Some (sim_dev resp_fifo_cfg_fails), 7)"
proof -
  let ?d = "sim_dev resp_fifo_cfg_fails"
  have w: "\<And>reg val n. icm_i2c_write1 ?d reg val n = (if n = 5 \<or> n = 6 then - 5 else 0, Suc n)"
    by (simp add: icm_i2c_write1_def sim_dev_def sim_i2c_def resp_fifo_cfg_fails_def OK_def)
  have conf: "icm_configure_default ?d 2 = (OK, 7)"
    by (simp add: icm_configure_default_def w OK_def)
  have who: "icm_check_whoami ?d 1 = (OK, 2)"
    unfolding icm_check_whoami_def
    using whoami_loop_sim_hit [of 0 resp_fifo_cfg_fails 1]
    by (simp add: resp_fifo_cfg_fails_def)
  have reset: "icm_reset ?d 0 = (OK, 1)"
    by (simp add: icm_reset_def w OK_def)
  have "icm42688_register sim_env ''/dev/imu0'' (Some (sim_cfg resp_fifo_cfg_fails)) 0
       = (OK, Some ?d, 7)"
    using register_identified [of "sim_cfg resp_fifo_cfg_fails" ?d sim_env 0 1 2 "''/dev/imu0''"]
      reset who conf
    by (simp add: sim_cfg_def sim_dev_def sim_env_def OK_def)
  then show ?thesis
    using conf by (simp add: w EIO_def)
qed


text \<open>
  C3, amended. A failure of the power-mode, gyro-configuration or accel-configuration
  write ends \<open>icm_configure_default\<close> at that write: the result is the transport's
  error code and the bus is as that one failed write left it, so the write is not
  repeated and no later write is made. When the three writes succeed the result is
  \<open>OK\<close> whatever the two FIFO writes return. A negative result of the configuration
  step is the result of \<open>icm42688_register\<close>, which leaves no device registered, both
  when the identity check passed at the configured address and when it passed at the
  alternate one.
\<close>

theorem configure_write_failure_aborts:
  "(icm_i2c_write1 dev ICM_REG_PWR_MGMT0 ICM_PWR_LN_GYRO_ACCEL b = (r, b1) \<and> r < 0
      \<longrightarrow> icm_configure_default dev b = (r, b1))
   \<and> (icm_i2c_write1 dev ICM_REG_PWR_MGMT0 ICM_PWR_LN_GYRO_ACCEL b = (OK, b1)
      \<and> icm_i2c_write1 dev ICM_REG_GYRO_CONFIG0 0x66 b1 = (r, b2) \<and> r < 0
      \<longrightarrow> icm_configure_default dev b = (r, b2))
   \<and> (icm_i2c_write1 dev ICM_REG_PWR_MGMT0 ICM_PWR_LN_GYRO_ACCEL b = (OK, b1)
      \<and> icm_i2c_write1 dev ICM_REG_GYRO_CONFIG0 0x66 b1 = (OK, b2)
      \<and> icm_i2c_write1 dev ICM_REG_ACCEL_CONFIG0 0x66 b2 = (r, b3) \<and> r < 0
      \<longrightarrow> icm_configure_default dev b = (r, b3))
   \<and> (icm_i2c_write1 dev ICM_REG_PWR_MGMT0 ICM_PWR_LN_GYRO_ACCEL b = (OK, b1)
      \<and> icm_i2c_write1 dev ICM_REG_GYRO_CONFIG0 0x66 b1 = (OK, b2)
      \<and> icm_i2c_write1 dev ICM_REG_ACCEL_CONFIG0 0x66 b2 = (OK, b3)
      \<longrightarrow> icm_configure_default dev b =
            (OK, snd (icm_i2c_write1 dev ICM_REG_FIFO_CONFIGURATION 0x07
                        (snd (icm_i2c_write1 dev ICM_REG_FIFO_CONFIG_INIT 0x40 b3)))))
   \<and> (cfg_i2c c = Some (i2c dev)
      \<and> i2c_freq dev = (if cfg_freq c \<noteq> 0 then cfg_freq c else 400000)
      \<and> i2c_addr dev = cfg_addr c
      \<and> kmm_malloc_ok env
      \<and> icm_reset dev b0 = (OK, a1)
      \<and> icm_check_whoami dev a1 = (OK, b)
      \<and> icm_configure_default dev b = (r, b5) \<and> r < 0
      \<longrightarrow> icm42688_register env path (Some c) b0 = (r, None, b5))
   \<and> (cfg_i2c c = Some (i2c dev)
      \<and> i2c_freq dev = (if cfg_freq c \<noteq> 0 then cfg_freq c else 400000)
      \<and> i2c_addr dev = cfg_addr c
      \<and> kmm_malloc_ok env
      \<and> icm_reset dev b0 = (OK, a1)
      \<and> icm_check_whoami dev a1 = (e, a2) \<and> e < 0
      \<and> alt = dev\<lparr>i2c_addr := (if i2c_addr dev = 0x68 then 0x69 else 0x68)\<rparr>
      \<and> icm_reset alt a2 = (OK, a3)
      \<and> icm_check_whoami alt a3 = (OK, a4)
      \<and> icm_configure_default alt a4 = (r, b5) \<and> r < 0
      \<longrightarrow> icm42688_register env path (Some c) b0 = (r, None, b5))"
proof (intro conjI impI)
  assume "icm_i2c_write1 dev ICM_REG_PWR_MGMT0 ICM_PWR_LN_GYRO_ACCEL b = (r, b1) \<and> r < 0"
  then show "icm_configure_default dev b = (r, b1)"
    by (simp add: configure_first_fails)
next
  assume "icm_i2c_write1 dev ICM_REG_PWR_MGMT0 ICM_PWR_LN_GYRO_ACCEL b = (OK, b1)
      \<and> icm_i2c_write1 dev ICM_REG_GYRO_CONFIG0 0x66 b1 = (r, b2) \<and> r < 0"
  then show "icm_configure_default dev b = (r, b2)"
    by (simp add: configure_second_fails)
next
  assume "icm_i2c_write1 dev ICM_REG_PWR_MGMT0 ICM_PWR_LN_GYRO_ACCEL b = (OK, b1)
      \<and> icm_i2c_write1 dev ICM_REG_GYRO_CONFIG0 0x66 b1 = (OK, b2)
      \<and> icm_i2c_write1 dev ICM_REG_ACCEL_CONFIG0 0x66 b2 = (r, b3) \<and> r < 0"
  then show "icm_configure_default dev b = (r, b3)"
    by (simp add: configure_third_fails)
next
  assume "icm_i2c_write1 dev ICM_REG_PWR_MGMT0 ICM_PWR_LN_GYRO_ACCEL b = (OK, b1)
      \<and> icm_i2c_write1 dev ICM_REG_GYRO_CONFIG0 0x66 b1 = (OK, b2)
      \<and> icm_i2c_write1 dev ICM_REG_ACCEL_CONFIG0 0x66 b2 = (OK, b3)"
  then show "icm_configure_default dev b =
            (OK, snd (icm_i2c_write1 dev ICM_REG_FIFO_CONFIGURATION 0x07
                        (snd (icm_i2c_write1 dev ICM_REG_FIFO_CONFIG_INIT 0x40 b3))))"
    by (simp add: configure_three_ok)
next
  assume h: "cfg_i2c c = Some (i2c dev)
      \<and> i2c_freq dev = (if cfg_freq c \<noteq> 0 then cfg_freq c else 400000)
      \<and> i2c_addr dev = cfg_addr c
      \<and> kmm_malloc_ok env
      \<and> icm_reset dev b0 = (OK, a1)
      \<and> icm_check_whoami dev a1 = (OK, b)
      \<and> icm_configure_default dev b = (r, b5) \<and> r < 0"
  then show "icm42688_register env path (Some c) b0 = (r, None, b5)"
    using register_identified [of c dev env b0 a1 b path] by simp
next
  assume h: "cfg_i2c c = Some (i2c dev)
      \<and> i2c_freq dev = (if cfg_freq c \<noteq> 0 then cfg_freq c else 400000)
      \<and> i2c_addr dev = cfg_addr c
      \<and> kmm_malloc_ok env
      \<and> icm_reset dev b0 = (OK, a1)
      \<and> icm_check_whoami dev a1 = (e, a2) \<and> e < 0
      \<and> alt = dev\<lparr>i2c_addr := (if i2c_addr dev = 0x68 then 0x69 else 0x68)\<rparr>
      \<and> icm_reset alt a2 = (OK, a3)
      \<and> icm_check_whoami alt a3 = (OK, a4)
      \<and> icm_configure_default alt a4 = (r, b5) \<and> r < 0"
  have "icm42688_register env path (Some c) b0 =
     (let (ret, b5) = icm_configure_default alt a4
      in if ret < 0 then (ret, None, b5)
         else (let r = register_driver env path
               in if r < 0 then (r, None, b5) else (OK, Some alt, b5)))"
    by (rule register_fallback [of c dev env b0 a1 e a2 alt a3 a4 path]) (use h in blast)+
  moreover have "icm_configure_default alt a4 = (r, b5)" and "r < 0"
    using h by blast+
  ultimately show "icm42688_register env path (Some c) b0 = (r, None, b5)"
    by simp
qed

theorem configure_write_failure_aborts_witness:
  "icm_i2c_write1 (sim_dev resp_pwr_fails) ICM_REG_PWR_MGMT0 ICM_PWR_LN_GYRO_ACCEL 2 = (- EIO, 3)
   \<and> icm_configure_default (sim_dev resp_pwr_fails) 2 = (- EIO, 3)
   \<and> icm42688_register sim_env ''/dev/imu0'' (Some (sim_cfg resp_pwr_fails)) 0
       = (- EIO, None, 3)"
proof -
  let ?d = "sim_dev resp_pwr_fails"
  have w: "\<And>reg val n. icm_i2c_write1 ?d reg val n = (if n = 2 then - 5 else 0, Suc n)"
    by (simp add: icm_i2c_write1_def sim_dev_def sim_i2c_def resp_pwr_fails_def OK_def)
  have pwr: "icm_i2c_write1 ?d ICM_REG_PWR_MGMT0 ICM_PWR_LN_GYRO_ACCEL 2 = (- EIO, 3)
             \<and> - EIO < 0"
    by (simp add: w EIO_def)
  note inst = configure_write_failure_aborts
    [of ?d 2 "- EIO" 3 _ _ "sim_cfg resp_pwr_fails" sim_env 0 1 3 "''/dev/imu0''"]
  have conf: "icm_configure_default ?d 2 = (- EIO, 3)"
    using inst [THEN conjunct1] pwr by simp
  have who: "icm_check_whoami ?d 1 = (OK, 2)"
    unfolding icm_check_whoami_def
    using whoami_loop_sim_hit [of 0 resp_pwr_fails 1]
    by (simp add: resp_pwr_fails_def)
  have reset: "icm_reset ?d 0 = (OK, 1)"
    by (simp add: icm_reset_def w OK_def)
  have cfg: "cfg_i2c (sim_cfg resp_pwr_fails) = Some (i2c ?d)
      \<and> i2c_freq ?d = (if cfg_freq (sim_cfg resp_pwr_fails) \<noteq> 0
                         then cfg_freq (sim_cfg resp_pwr_fails) else 400000)
      \<and> i2c_addr ?d = cfg_addr (sim_cfg resp_pwr_fails)
      \<and> kmm_malloc_ok sim_env"
    by (simp add: sim_cfg_def sim_dev_def sim_env_def)
  have reg: "icm42688_register sim_env ''/dev/imu0'' (Some (sim_cfg resp_pwr_fails)) 0
       = (- EIO, None, 3)"
    using inst [THEN conjunct2, THEN conjunct2, THEN conjunct2, THEN conjunct2, THEN conjunct1]
      cfg reset who conf pwr
    by simp
  from pwr conf reg show ?thesis by simp
qed

section \<open>Control interface: the scale query\<close>

lemma read_sim:
  "icm_i2c_read (sim_dev resp) reg len n =
     ((if fst (resp n) < 0 then fst (resp n) else OK, snd (resp n)), Suc n)"
  by (simp add: icm_i2c_read_def sim_dev_def sim_i2c_def)

lemma real_ops_simps:
  "lit real_ops x = x" "fof_int real_ops n = real_of_int n"
  "fadd real_ops a b = a + b" "fsub real_ops a b = a - b"
  "fmul real_ops a b = a * b" "fdiv real_ops a b = a / b"
  "fsqrt real_ops a = sqrt a" "fabs real_ops a = \<bar>a\<bar>"
  "flt real_ops a b \<longleftrightarrow> a < b" "fle real_ops a b \<longleftrightarrow> a \<le> b"
  by (simp_all add: real_ops_def)

lemma norm3_real_z: "norm3 real_ops 0 0 z = \<bar>z\<bar>"
  by (simp add: norm3_def real_ops_simps)

lemma fs_sel_of_range: "fs_sel_of v \<in> {0, 1, 2, 3}"
proof -
  have "0 \<le> drop_bit 4 (uint v) AND 3" by simp
  moreover have "drop_bit 4 (uint v) AND 3 \<le> 3"
    by (rule AND_upper2) simp
  ultimately have "0 \<le> fs_sel_of v \<and> fs_sel_of v \<le> 3"
    by (simp add: fs_sel_of_def)
  then show ?thesis by auto
qed

lemma fs_sel_of_bits: "fs_sel_of v = (uint v div 16) mod 4"
proof -
  have "drop_bit 4 (uint v) AND 3 = take_bit 2 (drop_bit 4 (uint v))"
    using take_bit_eq_mask [of 2 "drop_bit 4 (uint v)"] by (simp add: mask_eq_exp_minus_1)
  then show ?thesis
    by (simp add: fs_sel_of_def take_bit_eq_mod drop_bit_eq_div)
qed

lemma icm_parse_sample_12:
  "icm_parse_sample raw ICM_BURST_READ_LEN =
     Inr \<lparr>accel_x = asr1 (be16 (raw 0) (raw 1)),
          accel_y = asr1 (be16 (raw 2) (raw 3)),
          accel_z = asr1 (be16 (raw 4) (raw 5)),
          gyro_x = be16 (raw 6) (raw 7),
          gyro_y = be16 (raw 8) (raw 9),
          gyro_z = be16 (raw 10) (raw 11)\<rparr>"
  by (simp add: icm_parse_sample_def)

lemma get_scales_result:
  assumes "icm_i2c_read dev ICM_REG_ACCEL_CONFIG0 1 b = ((OK, acc), b1)"
    and "icm_i2c_read dev ICM_REG_GYRO_CONFIG0 1 b1 = ((OK, gyr), b2)"
    and "icm_i2c_read dev ICM_REG_ACCEL_DATA_X1 ICM_BURST_READ_LEN b2 = ((ret3, raw), b3)"
    and "icm_parse_sample raw ICM_BURST_READ_LEN = Inr s"
  shows "icm_ioctl_dev fl dev ICM_IOCTL_GET_SCALES False b =
     ((OK, OutScales
             (if ret3 \<noteq> OK then accel_scale_of (fs_sel_of (acc 0))
              else probe_adjust fl s (accel_scale_of (fs_sel_of (acc 0))))
             (gyro_scale_of (fs_sel_of (gyr 0)))), b3)"
  using assms
  by (simp add: icm_ioctl_dev_def ICM_IOCTL_GET_SCALES_def ICM_IOCTL_GET_SAMPLE_def OK_def)

lemma table_accel_cases:
  "accel_scale_of (fs_sel_of v) = 16384 \<or> accel_scale_of (fs_sel_of v) = 8192
   \<or> accel_scale_of (fs_sel_of v) = 2048"
  using fs_sel_of_range [of v] by (auto simp: accel_scale_of_def)

lemma probe_adjust_cases:
  "probe_adjust fl s t = t \<or> probe_adjust fl s t = t * 2 \<or> probe_adjust fl s t = t div 2"
  by (simp add: probe_adjust_def Let_def)

text \<open>
  C4, as claimed, fails: a scale that the query returns need not be one of the
  enumerated constants. On a device whose accel selector is 3 the table gives 2048; the
  data registers then read an acceleration of 4096 counts on Z, a norm of 2 g at that
  scale, and the probe doubles the value: the query returns 4096 counts per g, which
  the accel enumeration does not contain. The run is on exact arithmetic, at values
  (2048, 4096, 2, 4) on which the C \<open>float\<close> operations do not round.
\<close>

theorem scale_query_returns_outside_enumeration:
  "accel_scale_of (fs_sel_of (snd (resp_probe_2g 0) 0)) = 2048
   \<and> icm_parse_sample (snd (resp_probe_2g 2)) ICM_BURST_READ_LEN = Inr (sample_az 4096)
   \<and> probe_norm real_ops (sample_az 4096) 2048 = 2
   \<and> fst (icm_ioctl_dev real_ops (sim_dev resp_probe_2g) ICM_IOCTL_GET_SCALES False 0) =
       (OK, OutScales 4096 656)
   \<and> (4096 :: 32 word) \<notin> {16384, 8192, 2048}"
proof -
  let ?d = "sim_dev resp_probe_2g"
  let ?raw = "\<lambda>i::nat. if i = 4 then 0x20 else (0::8 word)"
  have r1: "icm_i2c_read ?d ICM_REG_ACCEL_CONFIG0 1 0 = ((OK, \<lambda>i. 0x30), 1)"
    and r2: "icm_i2c_read ?d ICM_REG_GYRO_CONFIG0 1 1 = ((OK, \<lambda>i. 0x66), 2)"
    and r3: "icm_i2c_read ?d ICM_REG_ACCEL_DATA_X1 ICM_BURST_READ_LEN 2 = ((OK, ?raw), 3)"
    by (simp_all add: read_sim resp_probe_2g_def)
  have p: "icm_parse_sample ?raw ICM_BURST_READ_LEN = Inr (sample_az 4096)"
    by (simp add: icm_parse_sample_12 asr1_def be16_def sample_az_def)
  have p': "icm_parse_sample (snd (resp_probe_2g 2)) ICM_BURST_READ_LEN = Inr (sample_az 4096)"
    using p by (simp add: resp_probe_2g_def)
  have t: "accel_scale_of (fs_sel_of (snd (resp_probe_2g 0) 0)) = 2048"
    "accel_scale_of (fs_sel_of ((\<lambda>i. 0x30) (0::nat))) = 2048"
    "gyro_scale_of (fs_sel_of ((\<lambda>i. 0x66) (0::nat))) = 656"
    by (simp_all add: resp_probe_2g_def accel_scale_of_def gyro_scale_of_def fs_sel_of_def)
  have n: "probe_norm real_ops (sample_az 4096) 2048 = 2"
    by (simp add: probe_norm_def sample_az_def real_ops_simps norm3_real_z)
  have adj: "probe_adjust real_ops (sample_az 4096) 2048 = 4096"
    by (simp add: probe_adjust_def n real_ops_simps)
  have res: "fst (icm_ioctl_dev real_ops ?d ICM_IOCTL_GET_SCALES False 0) =
       (OK, OutScales 4096 656)"
    using get_scales_result [OF r1 r2 r3 p, of real_ops] by (simp add: t adj)
  have out: "(4096 :: 32 word) \<notin> {16384, 8192, 2048}"
    by simp
  from t(1) p' n res out show ?thesis by blast
qed

text \<open>
  C4, amended. The selector that the scale query takes from a configuration byte is the
  value of its bits 5 and 4, a number from 0 to 3. The accel table maps 0, 1, 2, 3 to
  16384, 8192, 16384, 2048 (0 and 2 to the same constant) and the gyro table maps them
  to 164, 328, 656, 1310. For every configuration byte the scale that the tables give
  is one of these constants and is positive. The scale query returns the gyro value of
  the table and, as accel value, the value of the table or, after the probe, its double
  or its half: a positive value, one of 1024, 2048, 4096, 8192, 16384 and 32768.
\<close>

theorem scale_selector_mapping:
  "fs_sel_of v = (uint v div 16) mod 4
   \<and> fs_sel_of v \<in> {0, 1, 2, 3}
   \<and> accel_scale_of 0 = 16384 \<and> accel_scale_of 1 = 8192
   \<and> accel_scale_of 2 = 16384 \<and> accel_scale_of 3 = 2048
   \<and> accel_scale_of 0 = accel_scale_of 2
   \<and> gyro_scale_of 0 = 164 \<and> gyro_scale_of 1 = 328
   \<and> gyro_scale_of 2 = 656 \<and> gyro_scale_of 3 = 1310
   \<and> accel_scale_of (fs_sel_of v) \<in> {16384, 8192, 2048}
   \<and> gyro_scale_of (fs_sel_of v) \<in> {164, 328, 656, 1310}
   \<and> 0 < accel_scale_of (fs_sel_of v)
   \<and> 0 < gyro_scale_of (fs_sel_of v)
   \<and> (icm_i2c_read dev ICM_REG_ACCEL_CONFIG0 1 b = ((OK, acc), ba)
        \<and> icm_i2c_read dev ICM_REG_GYRO_CONFIG0 1 ba = ((OK, gyr), bg)
        \<longrightarrow> (\<exists>a. fst (icm_ioctl_dev fl dev ICM_IOCTL_GET_SCALES False b) =
                    (OK, OutScales a (gyro_scale_of (fs_sel_of (gyr 0))))
                \<and> (a = accel_scale_of (fs_sel_of (acc 0))
                     \<or> a = accel_scale_of (fs_sel_of (acc 0)) * 2
                     \<or> a = accel_scale_of (fs_sel_of (acc 0)) div 2)
                \<and> 0 < a
                \<and> a \<in> {1024, 2048, 4096, 8192, 16384, 32768}))"
proof -
  have bits: "fs_sel_of v = (uint v div 16) mod 4" by (rule fs_sel_of_bits)
  have rng: "fs_sel_of v \<in> {0, 1, 2, 3}" by (rule fs_sel_of_range)
  have tab: "accel_scale_of 0 = 16384 \<and> accel_scale_of 1 = 8192
      \<and> accel_scale_of 2 = 16384 \<and> accel_scale_of 3 = 2048
      \<and> accel_scale_of 0 = accel_scale_of 2
      \<and> gyro_scale_of 0 = 164 \<and> gyro_scale_of 1 = 328
      \<and> gyro_scale_of 2 = 656 \<and> gyro_scale_of 3 = 1310"
    by (simp add: accel_scale_of_def gyro_scale_of_def)
  from rng have mem: "accel_scale_of (fs_sel_of v) \<in> {16384, 8192, 2048}
      \<and> gyro_scale_of (fs_sel_of v) \<in> {164, 328, 656, 1310}
      \<and> 0 < accel_scale_of (fs_sel_of v) \<and> 0 < gyro_scale_of (fs_sel_of v)"
    by (auto simp: accel_scale_of_def gyro_scale_of_def)
  have query: "icm_i2c_read dev ICM_REG_ACCEL_CONFIG0 1 b = ((OK, acc), ba)
        \<and> icm_i2c_read dev ICM_REG_GYRO_CONFIG0 1 ba = ((OK, gyr), bg)
        \<longrightarrow> (\<exists>a. fst (icm_ioctl_dev fl dev ICM_IOCTL_GET_SCALES False b) =
                    (OK, OutScales a (gyro_scale_of (fs_sel_of (gyr 0))))
                \<and> (a = accel_scale_of (fs_sel_of (acc 0))
                     \<or> a = accel_scale_of (fs_sel_of (acc 0)) * 2
                     \<or> a = accel_scale_of (fs_sel_of (acc 0)) div 2)
                \<and> 0 < a
                \<and> a \<in> {1024, 2048, 4096, 8192, 16384, 32768})"
  proof
    assume h: "icm_i2c_read dev ICM_REG_ACCEL_CONFIG0 1 b = ((OK, acc), ba)
        \<and> icm_i2c_read dev ICM_REG_GYRO_CONFIG0 1 ba = ((OK, gyr), bg)"
    let ?t = "accel_scale_of (fs_sel_of (acc 0))"
    obtain ret3 raw b3 where
      r3: "icm_i2c_read dev ICM_REG_ACCEL_DATA_X1 ICM_BURST_READ_LEN bg = ((ret3, raw), b3)"
      by (metis surj_pair)
    obtain s where p: "icm_parse_sample raw ICM_BURST_READ_LEN = Inr s"
      by (simp add: icm_parse_sample_12)
    let ?a = "if ret3 \<noteq> OK then ?t else probe_adjust fl s ?t"
    have res: "fst (icm_ioctl_dev fl dev ICM_IOCTL_GET_SCALES False b) =
                 (OK, OutScales ?a (gyro_scale_of (fs_sel_of (gyr 0))))"
      using h r3 p get_scales_result [of dev b acc ba gyr bg ret3 raw b3 s fl] by simp
    have cases: "?a = ?t \<or> ?a = ?t * 2 \<or> ?a = ?t div 2"
      using probe_adjust_cases [of fl s ?t] by auto
    have tc: "?t = 16384 \<or> ?t = 8192 \<or> ?t = 2048"
      by (rule table_accel_cases)
    with cases have pos: "0 < ?a"
      by (elim disjE) simp_all
    from tc cases have six: "?a \<in> {1024, 2048, 4096, 8192, 16384, 32768}"
      by (elim disjE) simp_all
    from res cases pos six
    show "\<exists>a. fst (icm_ioctl_dev fl dev ICM_IOCTL_GET_SCALES False b) =
                    (OK, OutScales a (gyro_scale_of (fs_sel_of (gyr 0))))
                \<and> (a = ?t \<or> a = ?t * 2 \<or> a = ?t div 2)
                \<and> 0 < a
                \<and> a \<in> {1024, 2048, 4096, 8192, 16384, 32768}"
      by blast
  qed
  from bits rng tab mem query show ?thesis by blast
qed

theorem scale_selector_mapping_witness:
  "fs_sel_of 0x66 = 2 \<and> accel_scale_of (fs_sel_of 0x66) = 16384
   \<and> gyro_scale_of (fs_sel_of 0x66) = 656
   \<and> fst (icm_ioctl_dev real_ops (sim_dev resp_probe_fails) ICM_IOCTL_GET_SCALES False 0)
       = (OK, OutScales 16384 656)"
proof -
  let ?d = "sim_dev resp_probe_fails"
  have r: "icm_i2c_read ?d ICM_REG_ACCEL_CONFIG0 1 0 = ((OK, \<lambda>i. 0x66), 1)
           \<and> icm_i2c_read ?d ICM_REG_GYRO_CONFIG0 1 1 = ((OK, \<lambda>i. 0x66), 2)"
    by (simp add: icm_i2c_read_def sim_dev_def sim_i2c_def resp_probe_fails_def)
  have t: "fs_sel_of 0x66 = 2 \<and> accel_scale_of (fs_sel_of 0x66) = 16384
           \<and> gyro_scale_of (fs_sel_of 0x66) = 656"
    by (simp add: fs_sel_of_def accel_scale_of_def gyro_scale_of_def)
  note inst = scale_selector_mapping
    [where v = "0x66" and dev = "?d" and b = 0 and acc = "\<lambda>i. 0x66" and ba = 1
       and gyr = "\<lambda>i. 0x66" and bg = 2 and fl = real_ops]
  have q: "\<exists>a. fst (icm_ioctl_dev real_ops ?d ICM_IOCTL_GET_SCALES False 0) =
                (OK, OutScales a (gyro_scale_of (fs_sel_of 0x66)))"
    using inst r by blast
  have e: "fst (icm_ioctl_dev real_ops ?d ICM_IOCTL_GET_SCALES False 0)
             = (OK, OutScales 16384 656)"
    by (simp add: icm_ioctl_dev_def ICM_IOCTL_GET_SCALES_def ICM_IOCTL_GET_SAMPLE_def
        icm_i2c_read_def sim_dev_def sim_i2c_def resp_probe_fails_def OK_def
        fs_sel_of_def accel_scale_of_def gyro_scale_of_def)
  from t q e show ?thesis by blast
qed

text \<open>
  C10. When the two configuration reads of the scale query succeed and the read of the
  data registers fails, the query returns \<open>OK\<close> with the two scales of the tables;
  the failure of the read is not reported. Whatever the data read returns, the gyro
  scale of the result is the one of the table. The parser of the data bytes cannot
  reject the 12 bytes it is given, so the read is the only way the probe fails.
\<close>

theorem probe_failure_swallowed:
  "(icm_i2c_read dev ICM_REG_ACCEL_CONFIG0 1 b = ((OK, acc), b1)
      \<and> icm_i2c_read dev ICM_REG_GYRO_CONFIG0 1 b1 = ((OK, gyr), b2)
      \<and> icm_i2c_read dev ICM_REG_ACCEL_DATA_X1 ICM_BURST_READ_LEN b2 = ((ret3, raw), b3)
      \<and> ret3 \<noteq> OK
      \<longrightarrow> icm_ioctl_dev fl dev ICM_IOCTL_GET_SCALES False b =
            ((OK, OutScales (accel_scale_of (fs_sel_of (acc 0)))
                            (gyro_scale_of (fs_sel_of (gyr 0)))), b3))
   \<and> (icm_i2c_read dev ICM_REG_ACCEL_CONFIG0 1 b = ((OK, acc), b1)
      \<and> icm_i2c_read dev ICM_REG_GYRO_CONFIG0 1 b1 = ((OK, gyr), b2)
      \<longrightarrow> (\<exists>a. fst (icm_ioctl_dev fl dev ICM_IOCTL_GET_SCALES False b) =
                  (OK, OutScales a (gyro_scale_of (fs_sel_of (gyr 0))))))
   \<and> (\<forall>e. icm_parse_sample raw ICM_BURST_READ_LEN \<noteq> Inl e)"
proof (intro conjI impI allI)
  assume h: "icm_i2c_read dev ICM_REG_ACCEL_CONFIG0 1 b = ((OK, acc), b1)
      \<and> icm_i2c_read dev ICM_REG_GYRO_CONFIG0 1 b1 = ((OK, gyr), b2)
      \<and> icm_i2c_read dev ICM_REG_ACCEL_DATA_X1 ICM_BURST_READ_LEN b2 = ((ret3, raw), b3)
      \<and> ret3 \<noteq> OK"
  then show "icm_ioctl_dev fl dev ICM_IOCTL_GET_SCALES False b =
            ((OK, OutScales (accel_scale_of (fs_sel_of (acc 0)))
                            (gyro_scale_of (fs_sel_of (gyr 0)))), b3)"
    using get_scales_result [of dev b acc b1 gyr b2 ret3 raw b3 _ fl]
    by (simp add: icm_parse_sample_12)
next
  assume h: "icm_i2c_read dev ICM_REG_ACCEL_CONFIG0 1 b = ((OK, acc), b1)
      \<and> icm_i2c_read dev ICM_REG_GYRO_CONFIG0 1 b1 = ((OK, gyr), b2)"
  obtain ret3 raw' b3 where
    r3: "icm_i2c_read dev ICM_REG_ACCEL_DATA_X1 ICM_BURST_READ_LEN b2 = ((ret3, raw'), b3)"
    by (metis surj_pair)
  show "\<exists>a. fst (icm_ioctl_dev fl dev ICM_IOCTL_GET_SCALES False b) =
                  (OK, OutScales a (gyro_scale_of (fs_sel_of (gyr 0))))"
    using h r3 get_scales_result [of dev b acc b1 gyr b2 ret3 raw' b3 _ fl]
    by (simp add: icm_parse_sample_12)
next
  fix e
  show "icm_parse_sample raw ICM_BURST_READ_LEN \<noteq> Inl e"
    by (simp add: icm_parse_sample_12)
qed

theorem probe_failure_swallowed_witness:
  "fst (fst (icm_i2c_read (sim_dev resp_probe_fails) ICM_REG_ACCEL_DATA_X1
               ICM_BURST_READ_LEN 2)) = - EIO
   \<and> icm_ioctl_dev real_ops (sim_dev resp_probe_fails) ICM_IOCTL_GET_SCALES False 0 =
       ((OK, OutScales 16384 656), 3)"
proof -
  let ?d = "sim_dev resp_probe_fails"
  have r1: "icm_i2c_read ?d ICM_REG_ACCEL_CONFIG0 1 0 = ((OK, \<lambda>i. 0x66), 1)"
    and r2: "icm_i2c_read ?d ICM_REG_GYRO_CONFIG0 1 1 = ((OK, \<lambda>i. 0x66), 2)"
    and r3: "icm_i2c_read ?d ICM_REG_ACCEL_DATA_X1 ICM_BURST_READ_LEN 2
               = ((- EIO, \<lambda>i. 0x66), 3)"
    by (simp_all add: read_sim resp_probe_fails_def EIO_def)
  have ne: "- EIO \<noteq> OK" by (simp add: EIO_def OK_def)
  have "icm_ioctl_dev real_ops ?d ICM_IOCTL_GET_SCALES False 0 =
            ((OK, OutScales (accel_scale_of (fs_sel_of 0x66))
                            (gyro_scale_of (fs_sel_of 0x66))), 3)"
    using probe_failure_swallowed
      [of ?d 0 "\<lambda>i. 0x66" 1 "\<lambda>i. 0x66" 2 "- EIO" "\<lambda>i. 0x66" 3 real_ops,
        THEN conjunct1, rule_format]
      r1 r2 r3 ne
    by simp
  then show ?thesis
    using r3 by (simp add: fs_sel_of_def accel_scale_of_def gyro_scale_of_def)
qed


lemma adjust_cases:
  fixes t :: "32 word"
  assumes "t = 16384 \<or> t = 8192 \<or> t = 2048" and "\<not> (H \<and> L)"
  shows "((if H \<and> t < 65536 then t * 2 else if L \<and> 512 < t then t div 2 else t) = t * 2
            \<longleftrightarrow> H \<and> t < 65536)
       \<and> ((if H \<and> t < 65536 then t * 2 else if L \<and> 512 < t then t div 2 else t) = t div 2
            \<longleftrightarrow> L \<and> 512 < t)
       \<and> ((if H \<and> t < 65536 then t * 2 else if L \<and> 512 < t then t div 2 else t) = t
            \<longleftrightarrow> \<not> (H \<and> t < 65536) \<and> \<not> (L \<and> 512 < t))"
  using assms by auto

lemma be16_cat: "be16 hi lo = (word_cat hi lo :: 16 word)"
proof -
  have "uint lo < 256" using uint_bounded [of lo] by simp
  then have "uint lo mod 256 = uint lo" by simp
  then show ?thesis
    by (simp add: be16_def word_cat_eq' concat_bit_def or.commute take_bit_eq_mod)
qed

lemma sint_asr1: "sint (asr1 r) = sint r div 2"
  by (simp add: asr1_eq sint_signed_drop_bit_eq drop_bit_eq_div)

lemma probe_norm_bytes:
  "icm_parse_sample raw ICM_BURST_READ_LEN = Inr s \<Longrightarrow>
   probe_norm fl s t =
     fsqrt fl (fadd fl (fadd fl
       (fmul fl (fdiv fl (fof_int fl (sint (word_cat (raw 0) (raw 1) :: 16 word) div 2))
                         (fof_int fl (uint t)))
                (fdiv fl (fof_int fl (sint (word_cat (raw 0) (raw 1) :: 16 word) div 2))
                         (fof_int fl (uint t))))
       (fmul fl (fdiv fl (fof_int fl (sint (word_cat (raw 2) (raw 3) :: 16 word) div 2))
                         (fof_int fl (uint t)))
                (fdiv fl (fof_int fl (sint (word_cat (raw 2) (raw 3) :: 16 word) div 2))
                         (fof_int fl (uint t)))))
       (fmul fl (fdiv fl (fof_int fl (sint (word_cat (raw 4) (raw 5) :: 16 word) div 2))
                         (fof_int fl (uint t)))
                (fdiv fl (fof_int fl (sint (word_cat (raw 4) (raw 5) :: 16 word) div 2))
                         (fof_int fl (uint t)))))"
  by (auto simp add: icm_parse_sample_12 probe_norm_def norm3_def Let_def sint_asr1 be16_cat)

lemma parsed_counts:
  "\<exists>s. icm_parse_sample raw ICM_BURST_READ_LEN = Inr s
       \<and> sint (accel_x s) = sint (word_cat (raw 0) (raw 1) :: 16 word) div 2
       \<and> sint (accel_y s) = sint (word_cat (raw 2) (raw 3) :: 16 word) div 2
       \<and> sint (accel_z s) = sint (word_cat (raw 4) (raw 5) :: 16 word) div 2"
  by (simp add: icm_parse_sample_12 sint_asr1 be16_cat)

lemma scale_triple_distinct:
  fixes t :: "32 word"
  shows "t = 16384 \<or> t = 8192 \<or> t = 2048 \<Longrightarrow> t * 2 \<noteq> t div 2 \<and> t * 2 \<noteq> t \<and> t div 2 \<noteq> t"
  by auto

text \<open>
  C5. After the two configuration reads, the scale query makes one read of the 12 data
  bytes from the data registers, not from the FIFO (the bus afterwards is the bus after
  that read). The sample parsed from these bytes has as accel counts \<open>cx\<close>, \<open>cy\<close>,
  \<open>cz\<close> the three big-endian signed 16-bit words of the bytes 0 to 5, each halved
  (rounding down). With \<open>t\<close> the accel scale of the table, the norm \<open>an\<close> is the square
  root of the sum of the squares of \<open>cx / t\<close>, \<open>cy / t\<close> and \<open>cz / t\<close>, computed by
  the floating-point operations in the order of the code. The query returns as accel
  scale: \<open>t * 2\<close> exactly when \<open>1.7 < an < 2.2\<close> and \<open>t < 65536\<close>; \<open>t div 2\<close>
  exactly when \<open>0.45 < an < 0.65\<close> and \<open>512 < t\<close>; and \<open>t\<close> exactly when neither
  holds. The three values are different, so one adjustment at most is made. The
  comparisons are those of the floating-point parameter, of which the statement needs
  only that no value is at once above 1.7 and below 0.65.
\<close>

theorem probe_adjusts_accel_scale:
  "icm_i2c_read dev ICM_REG_ACCEL_CONFIG0 1 b = ((OK, acc), ba)
   \<and> icm_i2c_read dev ICM_REG_GYRO_CONFIG0 1 ba = ((OK, gyr), bg)
   \<and> icm_i2c_read dev ICM_REG_ACCEL_DATA_X1 ICM_BURST_READ_LEN bg = ((OK, raw), bd)
   \<and> t = accel_scale_of (fs_sel_of (acc 0))
   \<and> cx = sint (word_cat (raw 0) (raw 1) :: 16 word) div 2
   \<and> cy = sint (word_cat (raw 2) (raw 3) :: 16 word) div 2
   \<and> cz = sint (word_cat (raw 4) (raw 5) :: 16 word) div 2
   \<and> ax = fdiv fl (fof_int fl cx) (fof_int fl (uint t))
   \<and> ay = fdiv fl (fof_int fl cy) (fof_int fl (uint t))
   \<and> az = fdiv fl (fof_int fl cz) (fof_int fl (uint t))
   \<and> an = fsqrt fl (fadd fl (fadd fl (fmul fl ax ax) (fmul fl ay ay)) (fmul fl az az))
   \<and> \<not> (flt fl (lit fl 1.7) an \<and> flt fl an (lit fl 0.65))
   \<longrightarrow> (\<exists>s. icm_parse_sample raw ICM_BURST_READ_LEN = Inr s
             \<and> sint (accel_x s) = cx \<and> sint (accel_y s) = cy \<and> sint (accel_z s) = cz)
       \<and> (\<exists>a. icm_ioctl_dev fl dev ICM_IOCTL_GET_SCALES False b =
               ((OK, OutScales a (gyro_scale_of (fs_sel_of (gyr 0)))), bd)
            \<and> (a = t * 2 \<longleftrightarrow>
                 flt fl (lit fl 1.7) an \<and> flt fl an (lit fl 2.2) \<and> t < 65536)
            \<and> (a = t div 2 \<longleftrightarrow>
                 flt fl (lit fl 0.45) an \<and> flt fl an (lit fl 0.65) \<and> 512 < t)
            \<and> (a = t \<longleftrightarrow>
                 \<not> (flt fl (lit fl 1.7) an \<and> flt fl an (lit fl 2.2) \<and> t < 65536)
                 \<and> \<not> (flt fl (lit fl 0.45) an \<and> flt fl an (lit fl 0.65) \<and> 512 < t))
            \<and> t * 2 \<noteq> t div 2 \<and> t * 2 \<noteq> t \<and> t div 2 \<noteq> t)"
proof (intro impI)
  assume h: "icm_i2c_read dev ICM_REG_ACCEL_CONFIG0 1 b = ((OK, acc), ba)
   \<and> icm_i2c_read dev ICM_REG_GYRO_CONFIG0 1 ba = ((OK, gyr), bg)
   \<and> icm_i2c_read dev ICM_REG_ACCEL_DATA_X1 ICM_BURST_READ_LEN bg = ((OK, raw), bd)
   \<and> t = accel_scale_of (fs_sel_of (acc 0))
   \<and> cx = sint (word_cat (raw 0) (raw 1) :: 16 word) div 2
   \<and> cy = sint (word_cat (raw 2) (raw 3) :: 16 word) div 2
   \<and> cz = sint (word_cat (raw 4) (raw 5) :: 16 word) div 2
   \<and> ax = fdiv fl (fof_int fl cx) (fof_int fl (uint t))
   \<and> ay = fdiv fl (fof_int fl cy) (fof_int fl (uint t))
   \<and> az = fdiv fl (fof_int fl cz) (fof_int fl (uint t))
   \<and> an = fsqrt fl (fadd fl (fadd fl (fmul fl ax ax) (fmul fl ay ay)) (fmul fl az az))
   \<and> \<not> (flt fl (lit fl 1.7) an \<and> flt fl an (lit fl 0.65))"
  obtain s where p: "icm_parse_sample raw ICM_BURST_READ_LEN = Inr s"
    and cs: "sint (accel_x s) = sint (word_cat (raw 0) (raw 1) :: 16 word) div 2"
      "sint (accel_y s) = sint (word_cat (raw 2) (raw 3) :: 16 word) div 2"
      "sint (accel_z s) = sint (word_cat (raw 4) (raw 5) :: 16 word) div 2"
    using parsed_counts [of raw] by blast
  have sample: "\<exists>s. icm_parse_sample raw ICM_BURST_READ_LEN = Inr s
             \<and> sint (accel_x s) = cx \<and> sint (accel_y s) = cy \<and> sint (accel_z s) = cz"
    using p cs h by auto
  have res: "icm_ioctl_dev fl dev ICM_IOCTL_GET_SCALES False b =
      ((OK, OutScales (probe_adjust fl s t) (gyro_scale_of (fs_sel_of (gyr 0)))), bd)"
    using h p get_scales_result [of dev b acc ba gyr bg OK raw bd s fl] by simp
  have disj: "\<not> (flt fl (lit fl 1.7) an \<and> flt fl an (lit fl 0.65))"
    using h by blast
  have an: "an = probe_norm fl s t"
    using h by (simp add: probe_norm_bytes [OF p])
  have tc: "t = 16384 \<or> t = 8192 \<or> t = 2048"
    using h table_accel_cases [of "acc 0"] by simp
  have adj: "probe_adjust fl s t =
      (if (flt fl (lit fl 1.7) an \<and> flt fl an (lit fl 2.2)) \<and> t < 65536 then t * 2
       else if (flt fl (lit fl 0.45) an \<and> flt fl an (lit fl 0.65)) \<and> 512 < t then t div 2
       else t)"
    unfolding probe_adjust_def Let_def an conj_assoc by (rule refl)
  have excl: "\<not> ((flt fl (lit fl 1.7) an \<and> flt fl an (lit fl 2.2))
                \<and> (flt fl (lit fl 0.45) an \<and> flt fl an (lit fl 0.65)))"
    using disj by blast
  have iffs: "(probe_adjust fl s t = t * 2 \<longleftrightarrow>
                 flt fl (lit fl 1.7) an \<and> flt fl an (lit fl 2.2) \<and> t < 65536)
            \<and> (probe_adjust fl s t = t div 2 \<longleftrightarrow>
                 flt fl (lit fl 0.45) an \<and> flt fl an (lit fl 0.65) \<and> 512 < t)
            \<and> (probe_adjust fl s t = t \<longleftrightarrow>
                 \<not> (flt fl (lit fl 1.7) an \<and> flt fl an (lit fl 2.2) \<and> t < 65536)
                 \<and> \<not> (flt fl (lit fl 0.45) an \<and> flt fl an (lit fl 0.65) \<and> 512 < t))"
    using adjust_cases [OF tc excl] unfolding adj by blast
  have query: "\<exists>a. icm_ioctl_dev fl dev ICM_IOCTL_GET_SCALES False b =
               ((OK, OutScales a (gyro_scale_of (fs_sel_of (gyr 0)))), bd)
            \<and> (a = t * 2 \<longleftrightarrow>
                 flt fl (lit fl 1.7) an \<and> flt fl an (lit fl 2.2) \<and> t < 65536)
            \<and> (a = t div 2 \<longleftrightarrow>
                 flt fl (lit fl 0.45) an \<and> flt fl an (lit fl 0.65) \<and> 512 < t)
            \<and> (a = t \<longleftrightarrow>
                 \<not> (flt fl (lit fl 1.7) an \<and> flt fl an (lit fl 2.2) \<and> t < 65536)
                 \<and> \<not> (flt fl (lit fl 0.45) an \<and> flt fl an (lit fl 0.65) \<and> 512 < t))
            \<and> t * 2 \<noteq> t div 2 \<and> t * 2 \<noteq> t \<and> t div 2 \<noteq> t"
    using res iffs scale_triple_distinct [OF tc] by blast
  from sample query show "(\<exists>s. icm_parse_sample raw ICM_BURST_READ_LEN = Inr s
             \<and> sint (accel_x s) = cx \<and> sint (accel_y s) = cy \<and> sint (accel_z s) = cz)
       \<and> (\<exists>a. icm_ioctl_dev fl dev ICM_IOCTL_GET_SCALES False b =
               ((OK, OutScales a (gyro_scale_of (fs_sel_of (gyr 0)))), bd)
            \<and> (a = t * 2 \<longleftrightarrow>
                 flt fl (lit fl 1.7) an \<and> flt fl an (lit fl 2.2) \<and> t < 65536)
            \<and> (a = t div 2 \<longleftrightarrow>
                 flt fl (lit fl 0.45) an \<and> flt fl an (lit fl 0.65) \<and> 512 < t)
            \<and> (a = t \<longleftrightarrow>
                 \<not> (flt fl (lit fl 1.7) an \<and> flt fl an (lit fl 2.2) \<and> t < 65536)
                 \<and> \<not> (flt fl (lit fl 0.45) an \<and> flt fl an (lit fl 0.65) \<and> 512 < t))
            \<and> t * 2 \<noteq> t div 2 \<and> t * 2 \<noteq> t \<and> t div 2 \<noteq> t)"
    by (rule conjI)
qed


lemma sqrt_225_64: "sqrt (225 / 64) = 15 / 8"
  by (rule real_sqrt_unique) (simp_all add: power2_eq_square)

theorem probe_adjusts_accel_scale_witness:
  "icm_parse_sample (snd (resp_probe_3axis 2)) ICM_BURST_READ_LEN =
     Inr \<lparr>accel_x = - 1280, accel_y = 2560, accel_z = 2560,
          gyro_x = 0, gyro_y = 0, gyro_z = 0\<rparr>
   \<and> accel_scale_of (fs_sel_of (snd (resp_probe_3axis 0) 0)) = 2048
   \<and> probe_norm real_ops
        \<lparr>accel_x = - 1280, accel_y = 2560, accel_z = 2560,
          gyro_x = 0, gyro_y = 0, gyro_z = 0\<rparr> 2048 = 15 / 8
   \<and> icm_ioctl_dev real_ops (sim_dev resp_probe_3axis) ICM_IOCTL_GET_SCALES False 0 =
       ((OK, OutScales 4096 656), 3)"
proof -
  let ?d = "sim_dev resp_probe_3axis"
  let ?raw = "\<lambda>i::nat. if i = 0 then 0xF6 else if i = 2 \<or> i = 4 then 0x14 else (0::8 word)"
  let ?s = "\<lparr>accel_x = - 1280, accel_y = 2560, accel_z = 2560,
          gyro_x = 0, gyro_y = 0, gyro_z = 0\<rparr>"
  have r1: "icm_i2c_read ?d ICM_REG_ACCEL_CONFIG0 1 0 = ((OK, \<lambda>i. 0x30), 1)"
    and r2: "icm_i2c_read ?d ICM_REG_GYRO_CONFIG0 1 1 = ((OK, \<lambda>i. 0x66), 2)"
    and r3: "icm_i2c_read ?d ICM_REG_ACCEL_DATA_X1 ICM_BURST_READ_LEN 2 = ((OK, ?raw), 3)"
    by (simp_all add: read_sim resp_probe_3axis_def)
  have p: "icm_parse_sample (snd (resp_probe_3axis 2)) ICM_BURST_READ_LEN = Inr ?s"
    by (simp add: resp_probe_3axis_def icm_parse_sample_12 asr1_def be16_def)
  have t: "accel_scale_of (fs_sel_of (snd (resp_probe_3axis 0) 0)) = 2048"
    "(2048 :: 32 word) = accel_scale_of (fs_sel_of ((\<lambda>i. 0x30) (0::nat)))"
    by (simp_all add: resp_probe_3axis_def accel_scale_of_def fs_sel_of_def)
  have g: "gyro_scale_of (fs_sel_of ((\<lambda>i. 0x66) (0::nat))) = 656"
    by (simp add: gyro_scale_of_def fs_sel_of_def)
  have c: "- 1280 = sint (word_cat (?raw 0) (?raw 1) :: 16 word) div 2"
    "2560 = sint (word_cat (?raw 2) (?raw 3) :: 16 word) div 2"
    "2560 = sint (word_cat (?raw 4) (?raw 5) :: 16 word) div 2"
    by (simp_all add: word_cat_eq' concat_bit_def)
  have a: "(- 5 / 8 :: real) = fdiv real_ops (fof_int real_ops (- 1280))
                (fof_int real_ops (uint (2048 :: 32 word)))"
    "(5 / 4 :: real) = fdiv real_ops (fof_int real_ops 2560)
                (fof_int real_ops (uint (2048 :: 32 word)))"
    by (simp_all add: real_ops_simps)
  have n: "(15 / 8 :: real) = fsqrt real_ops (fadd real_ops (fadd real_ops
              (fmul real_ops (- 5 / 8) (- 5 / 8)) (fmul real_ops (5 / 4) (5 / 4)))
              (fmul real_ops (5 / 4) (5 / 4)))"
    using sqrt_225_64 by (simp add: real_ops_simps)
  have pn: "probe_norm real_ops ?s 2048 = 15 / 8"
    using sqrt_225_64 by (simp add: probe_norm_def norm3_def real_ops_simps)
  have bands: "\<not> (flt real_ops (lit real_ops 1.7) (15 / 8)
                  \<and> flt real_ops (15 / 8) (lit real_ops 0.65))"
    and high: "flt real_ops (lit real_ops 1.7) (15 / 8)
               \<and> flt real_ops (15 / 8) (lit real_ops 2.2)
               \<and> (2048 :: 32 word) < 65536"
    by (simp_all add: real_ops_simps)
  note inst = probe_adjusts_accel_scale
      [where dev = ?d and b = 0 and acc = "\<lambda>i. 0x30" and ba = 1 and gyr = "\<lambda>i. 0x66"
         and bg = 2 and raw = ?raw and bd = 3 and t = 2048 and cx = "- 1280"
         and cy = 2560 and cz = 2560 and ax = "- 5 / 8" and ay = "5 / 4" and az = "5 / 4"
         and an = "15 / 8" and fl = real_ops]
  have prem: "icm_i2c_read ?d ICM_REG_ACCEL_CONFIG0 1 0 = ((OK, \<lambda>i. 0x30), 1)
     \<and> icm_i2c_read ?d ICM_REG_GYRO_CONFIG0 1 1 = ((OK, \<lambda>i. 0x66), 2)
     \<and> icm_i2c_read ?d ICM_REG_ACCEL_DATA_X1 ICM_BURST_READ_LEN 2 = ((OK, ?raw), 3)
     \<and> (2048 :: 32 word) = accel_scale_of (fs_sel_of ((\<lambda>i. 0x30) (0::nat)))
     \<and> - 1280 = sint (word_cat (?raw 0) (?raw 1) :: 16 word) div 2
     \<and> 2560 = sint (word_cat (?raw 2) (?raw 3) :: 16 word) div 2
     \<and> 2560 = sint (word_cat (?raw 4) (?raw 5) :: 16 word) div 2
     \<and> (- 5 / 8 :: real) = fdiv real_ops (fof_int real_ops (- 1280))
                (fof_int real_ops (uint (2048 :: 32 word)))
     \<and> (5 / 4 :: real) = fdiv real_ops (fof_int real_ops 2560)
                (fof_int real_ops (uint (2048 :: 32 word)))
     \<and> (5 / 4 :: real) = fdiv real_ops (fof_int real_ops 2560)
                (fof_int real_ops (uint (2048 :: 32 word)))
     \<and> (15 / 8 :: real) = fsqrt real_ops (fadd real_ops (fadd real_ops
              (fmul real_ops (- 5 / 8) (- 5 / 8)) (fmul real_ops (5 / 4) (5 / 4)))
              (fmul real_ops (5 / 4) (5 / 4)))
     \<and> \<not> (flt real_ops (lit real_ops 1.7) (15 / 8)
                  \<and> flt real_ops (15 / 8) (lit real_ops 0.65))"
    by (intro conjI r1 r2 r3 t(2) c a n bands)
  obtain a where
    res: "icm_ioctl_dev real_ops ?d ICM_IOCTL_GET_SCALES False 0 =
            ((OK, OutScales a (gyro_scale_of (fs_sel_of ((\<lambda>i. 0x66) (0::nat))))), 3)"
    and dbl: "a = 2048 * 2 \<longleftrightarrow>
       flt real_ops (lit real_ops 1.7) (15 / 8) \<and> flt real_ops (15 / 8) (lit real_ops 2.2)
       \<and> (2048 :: 32 word) < 65536"
    using inst [THEN mp, OF prem] by blast
  from dbl high have "a = 4096" by simp
  with res g p t(1) pn show ?thesis by simp
qed

section \<open>Control interface: failures of the transport\<close>

lemmas ioctl_cmd_defs =
  ICM_IOCTL_GET_SAMPLE_def ICM_IOCTL_GET_SCALES_def ICM_IOCTL_GET_ACCEL_FS_def
  ICM_IOCTL_GET_GYRO_FS_def ICM_IOCTL_GET_ACCEL_CONFIG0_RAW_def
  ICM_IOCTL_GET_GYRO_CONFIG0_RAW_def

lemma read_oneshot_bus_failure:
  assumes "icm_i2c_read dev ICM_REG_FIFO_DATA ICM_FIFO_READ_LEN b = ((r, buf), b')"
    and "r < 0"
  shows "icm_read_fifo_packet dev b = (Inl (- EIO), b')"
    and "sizeof_sample \<le> len \<Longrightarrow> icm_read_oneshot dev len b = (Inl (- EAGAIN), b')"
  using assms by (simp_all add: icm_read_fifo_packet_def icm_read_oneshot_def)

text \<open>
  C2, as claimed, fails: when the read of the FIFO data port fails on the bus,
  \<open>icm_read_fifo_packet\<close> returns \<open>-EIO\<close>, but \<open>icm_read_oneshot\<close> turns every
  failure of it into \<open>-EAGAIN\<close>, the retryable result, and that is what \<open>read\<close> and
  the fetch-one-sample command return.
\<close>

theorem fetch_sample_bus_error_becomes_eagain:
  "fst (fst (icm_i2c_read (sim_dev resp_bus_down) ICM_REG_FIFO_DATA ICM_FIFO_READ_LEN 0)) = - EIO
   \<and> fst (icm_read_fifo_packet (sim_dev resp_bus_down) 0) = Inl (- EIO)
   \<and> fst (icm_read_dev (sim_dev resp_bus_down) sizeof_sample 0) = Inl (- EAGAIN)
   \<and> fst (icm_ioctl_dev real_ops (sim_dev resp_bus_down) ICM_IOCTL_GET_SAMPLE False 0)
       = (- EAGAIN, OutNone)
   \<and> - EAGAIN \<noteq> - EIO"
proof -
  let ?d = "sim_dev resp_bus_down"
  have r: "icm_i2c_read ?d ICM_REG_FIFO_DATA ICM_FIFO_READ_LEN 0 = ((- EIO, \<lambda>i. 0), 1)"
    by (simp add: read_sim resp_bus_down_def EIO_def)
  have neg: "- EIO < 0" by (simp add: EIO_def)
  show ?thesis
    using read_oneshot_bus_failure(1) [OF r neg]
      read_oneshot_bus_failure(2) [OF r neg, of sizeof_sample] r
    by (simp add: icm_read_dev_def icm_ioctl_dev_def EIO_def EAGAIN_def)
qed

text \<open>
  C2, amended. \<open>icm_i2c_read\<close> passes a negative result of the bus on unchanged. A
  failed read of the FIFO data port makes the fetch-one-sample command and \<open>read\<close>
  return the error \<open>-EAGAIN\<close> and no sample. A failed read of a configuration
  register makes the selector query and the raw-byte query of that register return the
  error code of the read; the scale query returns the code of the failed accel
  configuration read, or else that of the failed gyro configuration read.
\<close>

theorem transport_failure_reported:
  "(i2c dev b [\<lparr>frequency = i2c_freq dev, addr = i2c_addr dev, flags = I2C_M_NOSTOP,
                 buffer = [reg], length_m = 1\<rparr>,
               \<lparr>frequency = i2c_freq dev, addr = i2c_addr dev, flags = I2C_M_READ,
                 buffer = [], length_m = n\<rparr>] = (e, buf, b') \<and> e < 0
      \<longrightarrow> icm_i2c_read dev reg n b = ((e, buf), b'))
   \<and> (icm_i2c_read dev ICM_REG_FIFO_DATA ICM_FIFO_READ_LEN b = ((r, buf), b') \<and> r < 0
      \<longrightarrow> icm_ioctl_dev fl dev ICM_IOCTL_GET_SAMPLE False b = ((- EAGAIN, OutNone), b')
          \<and> icm_read_dev dev sizeof_sample b = (Inl (- EAGAIN), b'))
   \<and> (icm_i2c_read dev ICM_REG_ACCEL_CONFIG0 1 b = ((r, buf), b') \<and> r < 0
      \<longrightarrow> icm_ioctl_dev fl dev ICM_IOCTL_GET_ACCEL_FS False b = ((r, OutNone), b')
          \<and> icm_ioctl_dev fl dev ICM_IOCTL_GET_ACCEL_CONFIG0_RAW False b = ((r, OutNone), b'))
   \<and> (icm_i2c_read dev ICM_REG_GYRO_CONFIG0 1 b = ((r, buf), b') \<and> r < 0
      \<longrightarrow> icm_ioctl_dev fl dev ICM_IOCTL_GET_GYRO_FS False b = ((r, OutNone), b')
          \<and> icm_ioctl_dev fl dev ICM_IOCTL_GET_GYRO_CONFIG0_RAW False b = ((r, OutNone), b'))
   \<and> (icm_i2c_read dev ICM_REG_ACCEL_CONFIG0 1 b = ((r, buf), ba)
      \<and> icm_i2c_read dev ICM_REG_GYRO_CONFIG0 1 ba = ((rg, bufg), b') \<and> r < 0
      \<longrightarrow> icm_ioctl_dev fl dev ICM_IOCTL_GET_SCALES False b = ((r, OutNone), b'))
   \<and> (icm_i2c_read dev ICM_REG_ACCEL_CONFIG0 1 b = ((OK, bufg), ba)
      \<and> icm_i2c_read dev ICM_REG_GYRO_CONFIG0 1 ba = ((r, buf), b') \<and> r < 0
      \<longrightarrow> icm_ioctl_dev fl dev ICM_IOCTL_GET_SCALES False b = ((r, OutNone), b'))"
proof (intro conjI impI)
  assume "i2c dev b [\<lparr>frequency = i2c_freq dev, addr = i2c_addr dev, flags = I2C_M_NOSTOP,
                 buffer = [reg], length_m = 1\<rparr>,
               \<lparr>frequency = i2c_freq dev, addr = i2c_addr dev, flags = I2C_M_READ,
                 buffer = [], length_m = n\<rparr>] = (e, buf, b') \<and> e < 0"
  then show "icm_i2c_read dev reg n b = ((e, buf), b')"
    by (simp add: icm_i2c_read_def)
next
  assume h: "icm_i2c_read dev ICM_REG_FIFO_DATA ICM_FIFO_READ_LEN b = ((r, buf), b') \<and> r < 0"
  then have "icm_read_oneshot dev sizeof_sample b = (Inl (- EAGAIN), b')"
    using read_oneshot_bus_failure(2) [of dev b r buf b' sizeof_sample] by simp
  then show "icm_ioctl_dev fl dev ICM_IOCTL_GET_SAMPLE False b = ((- EAGAIN, OutNone), b')"
    and "icm_read_dev dev sizeof_sample b = (Inl (- EAGAIN), b')"
    by (simp_all add: icm_ioctl_dev_def icm_read_dev_def)
next
  assume h: "icm_i2c_read dev ICM_REG_ACCEL_CONFIG0 1 b = ((r, buf), b') \<and> r < 0"
  then show "icm_ioctl_dev fl dev ICM_IOCTL_GET_ACCEL_FS False b = ((r, OutNone), b')"
    and "icm_ioctl_dev fl dev ICM_IOCTL_GET_ACCEL_CONFIG0_RAW False b = ((r, OutNone), b')"
    by (simp_all add: icm_ioctl_dev_def ioctl_cmd_defs)
next
  assume h: "icm_i2c_read dev ICM_REG_GYRO_CONFIG0 1 b = ((r, buf), b') \<and> r < 0"
  then show "icm_ioctl_dev fl dev ICM_IOCTL_GET_GYRO_FS False b = ((r, OutNone), b')"
    and "icm_ioctl_dev fl dev ICM_IOCTL_GET_GYRO_CONFIG0_RAW False b = ((r, OutNone), b')"
    by (simp_all add: icm_ioctl_dev_def ioctl_cmd_defs)
next
  assume "icm_i2c_read dev ICM_REG_ACCEL_CONFIG0 1 b = ((r, buf), ba)
      \<and> icm_i2c_read dev ICM_REG_GYRO_CONFIG0 1 ba = ((rg, bufg), b') \<and> r < 0"
  then show "icm_ioctl_dev fl dev ICM_IOCTL_GET_SCALES False b = ((r, OutNone), b')"
    by (simp add: icm_ioctl_dev_def ioctl_cmd_defs)
next
  assume "icm_i2c_read dev ICM_REG_ACCEL_CONFIG0 1 b = ((OK, bufg), ba)
      \<and> icm_i2c_read dev ICM_REG_GYRO_CONFIG0 1 ba = ((r, buf), b') \<and> r < 0"
  then show "icm_ioctl_dev fl dev ICM_IOCTL_GET_SCALES False b = ((r, OutNone), b')"
    by (simp add: icm_ioctl_dev_def ioctl_cmd_defs OK_def)
qed

theorem transport_failure_reported_witness:
  "icm_i2c_read (sim_dev resp_bus_down) ICM_REG_FIFO_DATA ICM_FIFO_READ_LEN 0
     = ((- EIO, \<lambda>i. 0), 1)
   \<and> icm_ioctl_dev real_ops (sim_dev resp_bus_down) ICM_IOCTL_GET_SAMPLE False 0
       = ((- EAGAIN, OutNone), 1)
   \<and> icm_ioctl_dev real_ops (sim_dev resp_bus_down) ICM_IOCTL_GET_ACCEL_CONFIG0_RAW False 0
       = ((- EIO, OutNone), 1)
   \<and> icm_ioctl_dev real_ops (sim_dev resp_bus_down) ICM_IOCTL_GET_SCALES False 0
       = ((- EIO, OutNone), 2)"
proof -
  let ?d = "sim_dev resp_bus_down"
  have r: "\<And>reg len n. icm_i2c_read ?d reg len n = ((- EIO, \<lambda>i. 0), Suc n)"
    by (simp add: read_sim resp_bus_down_def EIO_def)
  have neg: "- EIO < 0" by (simp add: EIO_def)
  note inst = transport_failure_reported
    [where dev = "?d" and b = 0 and r = "- EIO" and buf = "\<lambda>i. 0" and b' = 1
       and fl = real_ops]
  have a: "icm_ioctl_dev real_ops ?d ICM_IOCTL_GET_SAMPLE False 0 = ((- EAGAIN, OutNone), 1)"
    using inst [THEN conjunct2, THEN conjunct1] r neg by simp
  have c: "icm_ioctl_dev real_ops ?d ICM_IOCTL_GET_ACCEL_CONFIG0_RAW False 0
             = ((- EIO, OutNone), 1)"
    using inst [THEN conjunct2, THEN conjunct2, THEN conjunct1] r neg by simp
  have s: "icm_ioctl_dev real_ops ?d ICM_IOCTL_GET_SCALES False 0 = ((- EIO, OutNone), 2)"
    using transport_failure_reported
      [where dev = "?d" and b = 0 and r = "- EIO" and buf = "\<lambda>i. 0" and ba = 1
         and rg = "- EIO" and bufg = "\<lambda>i. 0" and b' = 2 and fl = real_ops,
        THEN conjunct2, THEN conjunct2, THEN conjunct2, THEN conjunct2, THEN conjunct1]
      r neg by simp
  from r a c s show ?thesis by simp
qed

section \<open>Acquisition loop\<close>

lemma sanity_check_bias:
  "ax_bias (fst (sanity_check fl s st p)) = ax_bias st"
  "ay_bias (fst (sanity_check fl s st p)) = ay_bias st"
  "az_bias (fst (sanity_check fl s st p)) = az_bias st"
  "gx_bias (fst (sanity_check fl s st p)) = gx_bias st"
  "gy_bias (fst (sanity_check fl s st p)) = gy_bias st"
  "gz_bias (fst (sanity_check fl s st p)) = gz_bias st"
  by (simp_all add: sanity_check_def Let_def)

lemma sanity_check_filt:
  "filt_init (fst (sanity_check fl s st p)) = filt_init st"
  "fax (fst (sanity_check fl s st p)) = fax st"
  "fay (fst (sanity_check fl s st p)) = fay st"
  "faz (fst (sanity_check fl s st p)) = faz st"
  "fgx (fst (sanity_check fl s st p)) = fgx st"
  "fgy (fst (sanity_check fl s st p)) = fgy st"
  "fgz (fst (sanity_check fl s st p)) = fgz st"
  by (simp_all add: sanity_check_def Let_def)

lemma sanity_check_gyro:
  "gx_dps (snd (sanity_check fl s st p)) = gx_dps p"
  "gy_dps (snd (sanity_check fl s st p)) = gy_dps p"
  "gz_dps (snd (sanity_check fl s st p)) = gz_dps p"
  by (simp_all add: sanity_check_def recalc_def Let_def)


lemma print_step_keeps:
  "ax_bias (fst (print_step st)) = ax_bias st" "ay_bias (fst (print_step st)) = ay_bias st"
  "az_bias (fst (print_step st)) = az_bias st" "gx_bias (fst (print_step st)) = gx_bias st"
  "gy_bias (fst (print_step st)) = gy_bias st" "gz_bias (fst (print_step st)) = gz_bias st"
  "fax (fst (print_step st)) = fax st" "fay (fst (print_step st)) = fay st"
  "faz (fst (print_step st)) = faz st" "fgx (fst (print_step st)) = fgx st"
  "fgy (fst (print_step st)) = fgy st" "fgz (fst (print_step st)) = fgz st"
  by (simp_all add: print_step_def Let_def)

lemma iir_filter_bias:
  "ax_bias (iir_filter fl st p) = ax_bias st" "ay_bias (iir_filter fl st p) = ay_bias st"
  "az_bias (iir_filter fl st p) = az_bias st" "gx_bias (iir_filter fl st p) = gx_bias st"
  "gy_bias (iir_filter fl st p) = gy_bias st" "gz_bias (iir_filter fl st p) = gz_bias st"
  by (simp_all add: iir_filter_def)

lemma iir_filter_out:
  "fax (iir_filter fl st p) = (if filt_init st then iir fl (ax_g p) (fax st) else ax_g p)"
  "fay (iir_filter fl st p) = (if filt_init st then iir fl (ay_g p) (fay st) else ay_g p)"
  "faz (iir_filter fl st p) = (if filt_init st then iir fl (az_g p) (faz st) else az_g p)"
  "fgx (iir_filter fl st p) = (if filt_init st then iir fl (gx_dps p) (fgx st) else gx_dps p)"
  "fgy (iir_filter fl st p) = (if filt_init st then iir fl (gy_dps p) (fgy st) else gy_dps p)"
  "fgz (iir_filter fl st p) = (if filt_init st then iir fl (gz_dps p) (fgz st) else gz_dps p)"
  "filt_init (iir_filter fl st p)"
  by (simp_all add: iir_filter_def)

lemma bias_update_bias:
  "ax_bias (bias_update fl stb st p) = (if stb then ema fl (ax_bias st) (ax_g p) else ax_bias st)"
  "ay_bias (bias_update fl stb st p) = (if stb then ema fl (ay_bias st) (ay_g p) else ay_bias st)"
  "az_bias (bias_update fl stb st p) = (if stb then ema fl (az_bias st) (az_g p) else az_bias st)"
  "gx_bias (bias_update fl stb st p) = (if stb then ema fl (gx_bias st) (gx_dps p) else gx_bias st)"
  "gy_bias (bias_update fl stb st p) = (if stb then ema fl (gy_bias st) (gy_dps p) else gy_bias st)"
  "gz_bias (bias_update fl stb st p) = (if stb then ema fl (gz_bias st) (gz_dps p) else gz_bias st)"
  by (simp_all add: bias_update_def)

lemma bias_update_filt:
  "filt_init (bias_update fl stb st p) = filt_init st"
  "fax (bias_update fl stb st p) = fax st" "fay (bias_update fl stb st p) = fay st"
  "faz (bias_update fl stb st p) = faz st" "fgx (bias_update fl stb st p) = fgx st"
  "fgy (bias_update fl stb st p) = fgy st" "fgz (bias_update fl stb st p) = fgz st"
  by (simp_all add: bias_update_def)

lemma remove_bias_fields:
  "ax_g (remove_bias fl st p) = fsub fl (ax_g p) (ax_bias st)"
  "ay_g (remove_bias fl st p) = fsub fl (ay_g p) (ay_bias st)"
  "az_g (remove_bias fl st p) = fsub fl (az_g p) (az_bias st)"
  "gx_dps (remove_bias fl st p) = fsub fl (gx_dps p) (gx_bias st)"
  "gy_dps (remove_bias fl st p) = fsub fl (gy_dps p) (gy_bias st)"
  "gz_dps (remove_bias fl st p) = fsub fl (gz_dps p) (gz_bias st)"
  by (simp_all add: remove_bias_def)

lemma process_sample_unfold:
  assumes "fs_ready st"
  shows "fst (process_sample fl s st) =
     fst (print_step
       (iir_filter fl
          (bias_update fl
             (stable fl (gyro_abs_max fl (convert fl st s))
                (anorm (snd (sanity_check fl s st (convert fl st s)))))
             (fst (sanity_check fl s st (convert fl st s)))
             (snd (sanity_check fl s st (convert fl st s))))
          (remove_bias fl
             (bias_update fl
                (stable fl (gyro_abs_max fl (convert fl st s))
                   (anorm (snd (sanity_check fl s st (convert fl st s)))))
                (fst (sanity_check fl s st (convert fl st s)))
                (snd (sanity_check fl s st (convert fl st s))))
             (snd (sanity_check fl s st (convert fl st s))))))"
  using assms unfolding process_sample_def Let_def case_prod_beta by simp



lemmas loop_eval_defs =
  loop_body_def process_sample_def convert_def sanity_check_def recalc_def stable_def
  gyro_abs_max_def bias_update_def remove_bias_def iir_filter_def print_step_def
  ema_def iir_def beta_bias_def alpha_def gyro_stable_dps_def accel_norm_tolerance_g_def
  anorm_trigger_frames_def print_every_n_def sample_az_def low_frame_def high_frame_def

lemma run_loop_append: "run_loop fl (xs @ ys) st = run_loop fl ys (run_loop fl xs st)"
  by (induction xs arbitrary: st) auto

lemma run_loop_single: "run_loop fl [x] st = fst (loop_body fl (fst x) (snd x) st)"
  by (cases x) simp

lemma run_five_frames:
  "run_loop real_ops [low_frame, low_frame, low_frame, low_frame, low_frame]
     (init_state real_ops) = st_four_low"
  by (simp add: init_state_def loop_eval_defs real_ops_simps norm3_real_z Let_def
      st_four_low_def)

lemma high_after_four_low:
  "fst (loop_body real_ops (fst high_frame) (snd high_frame) st_four_low) =
     st_four_low\<lparr>faz := 0.725, anorm_high_cnt := 1, print_count := 5\<rparr>"
  by (simp add: loop_eval_defs real_ops_simps norm3_real_z Let_def st_four_low_def)

lemma low_after_high:
  "accel_lsb_per_g (fst (loop_body real_ops (fst low_frame) (snd low_frame)
      (st_four_low\<lparr>faz := 0.725, anorm_high_cnt := 1, print_count := 5\<rparr>))) = 1024
   \<and> accel_scale_sanity_fixed (fst (loop_body real_ops (fst low_frame) (snd low_frame)
      (st_four_low\<lparr>faz := 0.725, anorm_high_cnt := 1, print_count := 5\<rparr>)))"
  by (simp add: loop_eval_defs real_ops_simps norm3_real_z Let_def st_four_low_def)

lemma frames_delivered:
  "fst (icm_read_dev (sim_dev (\<lambda>n. (0, fifo_packet_az 0x10))) sizeof_sample 0) =
     Inr (sample_az 1024)
   \<and> fst (icm_read_dev (sim_dev (\<lambda>n. (0, fifo_packet_az 0x40))) sizeof_sample 0) =
     Inr (sample_az 4096)"
  by (simp add: icm_read_dev_def icm_read_oneshot_def sizeof_sample_def
      icm_read_fifo_packet_def icm_i2c_read_def sim_dev_def sim_i2c_def
      ICM_FIFO_READ_LEN_def icm_parse_fifo_sample_def fifo_packet_az_def asr1_def be16_def
      sample_az_def OK_def)

lemma scales_delivered:
  "fst (icm_ioctl_dev real_ops (sim_dev resp_scales_2048_164) ICM_IOCTL_GET_SCALES False 0) =
     (OK, OutScales 2048 164)"
  by (simp add: icm_ioctl_dev_def ioctl_cmd_defs icm_i2c_read_def sim_dev_def sim_i2c_def
      resp_scales_2048_164_def OK_def ICM_BURST_READ_LEN_def icm_parse_sample_def
      fs_sel_of_def accel_scale_of_def gyro_scale_of_def probe_adjust_def probe_norm_def
      real_ops_simps norm3_real_z asr1_def be16_def Let_def)

text \<open>
  C6. The claim says that each run counter is reset to zero whenever the norm of the
  current frame lies outside the band of that counter, so that a correction needs five
  consecutive frames in one band. Run from the initial state, with the scale query
  answering 2048 counts per g: a first frame (dropped), four frames of 1024 counts
  (0.5 g), one frame of 4096 counts (2 g) and one more frame of 1024 counts. These are
  frames and an answer that the driver delivers: the FIFO packets with the accel Z words
  4096 and 16384 are read as the counts 1024 and 4096, and the scale query on a device
  set to the accel selector 3 and the gyro selector 0 answers 2048 and 164. The frame
  of 2 g lies outside the low band, yet the low counter is still 4 after it: the branch
  taken for a norm in the high band does not touch the low counter. The next frame of
  0.5 g then brings the low counter to 5 and the scale is halved, after a single frame
  in the low band.
\<close>

theorem low_counter_survives_high_frame:
  "fst (icm_read_dev (sim_dev (\<lambda>n. (0, fifo_packet_az 0x10))) sizeof_sample 0) = Inr (sample_az 1024)
   \<and> fst (icm_read_dev (sim_dev (\<lambda>n. (0, fifo_packet_az 0x40))) sizeof_sample 0) = Inr (sample_az 4096)
   \<and> fst (icm_ioctl_dev real_ops (sim_dev resp_scales_2048_164) ICM_IOCTL_GET_SCALES False 0) =
       (OK, OutScales 2048 164)
   \<and> low_frame = (Some (sample_az 1024), (OK, 2048, 164))
   \<and> high_frame = (Some (sample_az 4096), (OK, 2048, 164))
   \<and> anorm (convert real_ops st_four_low (sample_az 1024)) = 0.5
   \<and> anorm (convert real_ops st_four_low (sample_az 4096)) = 2
   \<and> anorm_low_cnt (run_loop real_ops
        [low_frame, low_frame, low_frame, low_frame, low_frame]
        (init_state real_ops)) = 4
   \<and> anorm_low_cnt (run_loop real_ops
        [low_frame, low_frame, low_frame, low_frame, low_frame, high_frame]
        (init_state real_ops)) = 4
   \<and> anorm_high_cnt (run_loop real_ops
        [low_frame, low_frame, low_frame, low_frame, low_frame, high_frame]
        (init_state real_ops)) = 1
   \<and> accel_lsb_per_g (run_loop real_ops
        [low_frame, low_frame, low_frame, low_frame, low_frame, high_frame]
        (init_state real_ops)) = 2048
   \<and> accel_lsb_per_g (run_loop real_ops
        [low_frame, low_frame, low_frame, low_frame, low_frame, high_frame, low_frame]
        (init_state real_ops)) = 1024
   \<and> accel_scale_sanity_fixed (run_loop real_ops
        [low_frame, low_frame, low_frame, low_frame, low_frame, high_frame, low_frame]
        (init_state real_ops))"
proof -
  let ?five = "[low_frame, low_frame, low_frame, low_frame, low_frame]"
  let ?st6 = "st_four_low\<lparr>faz := 0.725, anorm_high_cnt := 1, print_count := 5\<rparr>"
  have l6: "[low_frame, low_frame, low_frame, low_frame, low_frame, high_frame]
              = ?five @ [high_frame]"
    and l7: "[low_frame, low_frame, low_frame, low_frame, low_frame, high_frame, low_frame]
              = (?five @ [high_frame]) @ [low_frame]"
    by simp_all
  have six: "run_loop real_ops (?five @ [high_frame]) (init_state real_ops) = ?st6"
    by (simp only: run_loop_append run_five_frames run_loop_single high_after_four_low)
  have seven: "run_loop real_ops ((?five @ [high_frame]) @ [low_frame]) (init_state real_ops)
      = fst (loop_body real_ops (fst low_frame) (snd low_frame) ?st6)"
    by (simp only: run_loop_append [of _ "?five @ [high_frame]"] six run_loop_single)
  have fr: "low_frame = (Some (sample_az 1024), (OK, 2048, 164))"
    "high_frame = (Some (sample_az 4096), (OK, 2048, 164))"
    by (simp_all add: low_frame_def high_frame_def OK_def)
  have n: "anorm (convert real_ops st_four_low (sample_az 1024)) = 0.5"
    "anorm (convert real_ops st_four_low (sample_az 4096)) = 2"
    by (simp_all add: convert_def sample_az_def st_four_low_def real_ops_simps norm3_real_z
        Let_def)
  have c5: "anorm_low_cnt (run_loop real_ops ?five (init_state real_ops)) = 4"
    unfolding run_five_frames by (simp add: st_four_low_def)
  have c6: "anorm_low_cnt ?st6 = 4 \<and> anorm_high_cnt ?st6 = 1 \<and> accel_lsb_per_g ?st6 = 2048"
    by (simp add: st_four_low_def)
  show ?thesis
    unfolding l6 l7 six seven
    using frames_delivered scales_delivered fr n c5 c6 low_after_high by blast
qed





section \<open>The low-pass filter\<close>

text \<open>
  The filter step on exact arithmetic: the distance of the output to a constant input
  shrinks by the factor \<open>17 / 20\<close> at every step.
\<close>

lemma iir_real: "iir real_ops v f = (3 / 20) * v + (17 / 20) * f"
  by (simp add: iir_def alpha_def real_ops_simps)

lemma iir_real_error: "iir real_ops v f - v = (17 / 20) * (f - v)"
  by (simp add: iir_real algebra_simps)

lemma iir_real_iterate: "(iir real_ops v ^^ n) f0 - v = (17 / 20) ^ n * (f0 - v)"
proof (induction n)
  case 0
  then show ?case by simp
next
  case (Suc n)
  have "(iir real_ops v ^^ Suc n) f0 - v = (17 / 20) * ((iir real_ops v ^^ n) f0 - v)"
    by (simp add: iir_real_error)
  then show ?case by (simp add: Suc.IH)
qed

lemma iir_real_step_closer: "\<bar>iir real_ops v f - v\<bar> \<le> \<bar>f - v\<bar>"
proof -
  have "\<bar>(17 / 20) * (f - v)\<bar> = (17 / 20) * \<bar>f - v\<bar>"
    by (subst abs_mult) simp
  moreover have "(17 / 20) * \<bar>f - v\<bar> \<le> \<bar>f - v\<bar>"
    by simp
  ultimately have "\<bar>(17 / 20) * (f - v)\<bar> \<le> \<bar>f - v\<bar>"
    by simp
  then show ?thesis by (simp only: iir_real_error)
qed

lemma iir_real_closer:
  "\<bar>(iir real_ops v ^^ Suc n) f0 - v\<bar> \<le> \<bar>(iir real_ops v ^^ n) f0 - v\<bar>"
  using iir_real_step_closer [of v "(iir real_ops v ^^ n) f0"] by simp

lemma iir_real_from_below:
  assumes "f0 \<le> v"
  shows "(iir real_ops v ^^ n) f0 \<le> (iir real_ops v ^^ Suc n) f0
       \<and> (iir real_ops v ^^ Suc n) f0 \<le> v"
proof -
  have below: "(iir real_ops v ^^ k) f0 \<le> v" for k
  proof -
    have "(iir real_ops v ^^ k) f0 - v = (17 / 20) ^ k * (f0 - v)" by (rule iir_real_iterate)
    moreover have "(17 / 20) ^ k * (f0 - v) \<le> 0"
      using assms by (simp add: mult_nonneg_nonpos)
    ultimately show ?thesis by simp
  qed
  have "(iir real_ops v ^^ Suc n) f0 = (3 / 20) * v + (17 / 20) * (iir real_ops v ^^ n) f0"
    by (simp add: iir_real)
  then show ?thesis using below [of n] below [of "Suc n"] by simp
qed

lemma iir_real_from_above:
  assumes "v \<le> f0"
  shows "v \<le> (iir real_ops v ^^ Suc n) f0
       \<and> (iir real_ops v ^^ Suc n) f0 \<le> (iir real_ops v ^^ n) f0"
proof -
  have above: "v \<le> (iir real_ops v ^^ k) f0" for k
  proof -
    have "(iir real_ops v ^^ k) f0 - v = (17 / 20) ^ k * (f0 - v)" by (rule iir_real_iterate)
    moreover have "0 \<le> (17 / 20) ^ k * (f0 - v)"
      using assms by simp
    ultimately show ?thesis by simp
  qed
  have "(iir real_ops v ^^ Suc n) f0 = (3 / 20) * v + (17 / 20) * (iir real_ops v ^^ n) f0"
    by (simp add: iir_real)
  then show ?thesis using above [of n] above [of "Suc n"] by simp
qed

lemma iir_real_limit: "(\<lambda>n. (iir real_ops v ^^ n) f0) \<longlonglongrightarrow> v"
proof -
  have "(\<lambda>n. ((17 / 20) :: real) ^ n) \<longlonglongrightarrow> 0"
    by (rule LIMSEQ_realpow_zero) simp_all
  then have "(\<lambda>n. (17 / 20) ^ n * (f0 - v) + v) \<longlonglongrightarrow> 0 * (f0 - v) + v"
    by (intro tendsto_add tendsto_mult tendsto_const)
  moreover have "(\<lambda>n. (iir real_ops v ^^ n) f0) = (\<lambda>n. (17 / 20) ^ n * (f0 - v) + v)"
  proof
    fix n
    show "(iir real_ops v ^^ n) f0 = (17 / 20) ^ n * (f0 - v) + v"
      using iir_real_iterate [where v = v and n = n and ?f0.0 = f0] by simp
  qed
  ultimately show ?thesis by simp
qed


lemma iir_filter_filtered:
  "filtered (iir_filter fl st p) =
     (if filt_init st then map2 (iir fl) (values6 p) (filtered st) else values6 p)"
  by (simp add: filtered_def values6_def iir_filter_out)

lemma process_sample_filtered:
  assumes "fs_ready st"
  shows "filtered (fst (process_sample fl s st)) =
     (if filt_init st
      then map2 (iir fl)
             (values6 (remove_bias fl (fst (process_sample fl s st))
                         (snd (sanity_check fl s st (convert fl st s)))))
             (filtered st)
      else values6 (remove_bias fl (fst (process_sample fl s st))
                      (snd (sanity_check fl s st (convert fl st s)))))"
  unfolding process_sample_unfold [OF assms]
  by (simp add: filtered_def values6_def print_step_keeps iir_filter_bias
      iir_filter_out bias_update_bias bias_update_filt remove_bias_fields
      sanity_check_bias sanity_check_filt)

text \<open>
  The filter in the loop, for any floating-point arithmetic: the first sample that is
  filtered sets each of the six outputs to the bias-removed value, and every later one
  sets it to \<open>0.15 * value + (1.0 - 0.15) * output\<close>. On exact arithmetic and with
  a constant input, the outputs move towards the input without passing it, their
  distance to it never grows, and they converge to it. Rounding is not part of the
  statement about exact arithmetic.
\<close>

theorem low_pass_seed_step_converge:
  "(\<not> filt_init st \<longrightarrow> filtered (iir_filter fl st p) = values6 p)
   \<and> (filt_init st \<longrightarrow>
        filtered (iir_filter fl st p) = map2 (iir fl) (values6 p) (filtered st))
   \<and> filt_init (iir_filter fl st p)
   \<and> iir fl v f =
        fadd fl (fmul fl (lit fl 0.15) v) (fmul fl (fsub fl (lit fl 1.0) (lit fl 0.15)) f)
   \<and> (fs_ready st \<and> \<not> filt_init st \<longrightarrow>
        filtered (fst (process_sample fl s st)) =
          values6 (remove_bias fl (fst (process_sample fl s st))
                     (snd (sanity_check fl s st (convert fl st s)))))
   \<and> (fs_ready st \<and> filt_init st \<longrightarrow>
        filtered (fst (process_sample fl s st)) =
          map2 (iir fl)
            (values6 (remove_bias fl (fst (process_sample fl s st))
                        (snd (sanity_check fl s st (convert fl st s)))))
            (filtered st))
   \<and> (iir real_ops x ^^ n) f0 - x = (17 / 20) ^ n * (f0 - x)
   \<and> \<bar>(iir real_ops x ^^ Suc n) f0 - x\<bar> \<le> \<bar>(iir real_ops x ^^ n) f0 - x\<bar>
   \<and> (f0 \<le> x \<longrightarrow>
        (iir real_ops x ^^ n) f0 \<le> (iir real_ops x ^^ Suc n) f0
        \<and> (iir real_ops x ^^ Suc n) f0 \<le> x)
   \<and> (x \<le> f0 \<longrightarrow>
        x \<le> (iir real_ops x ^^ Suc n) f0
        \<and> (iir real_ops x ^^ Suc n) f0 \<le> (iir real_ops x ^^ n) f0)
   \<and> (\<lambda>k. (iir real_ops x ^^ k) f0) \<longlonglongrightarrow> x"
proof (intro conjI impI)
  assume "\<not> filt_init st"
  then show "filtered (iir_filter fl st p) = values6 p"
    by (simp add: iir_filter_filtered)
next
  assume "filt_init st"
  then show "filtered (iir_filter fl st p) = map2 (iir fl) (values6 p) (filtered st)"
    by (simp only: iir_filter_filtered if_True)
next
  show "filt_init (iir_filter fl st p)"
    by (rule iir_filter_out)
next
  show "iir fl v f =
        fadd fl (fmul fl (lit fl 0.15) v) (fmul fl (fsub fl (lit fl 1.0) (lit fl 0.15)) f)"
    unfolding iir_def alpha_def by (rule refl)
next
  assume "fs_ready st \<and> \<not> filt_init st"
  then show "filtered (fst (process_sample fl s st)) =
          values6 (remove_bias fl (fst (process_sample fl s st))
                     (snd (sanity_check fl s st (convert fl st s))))"
    using process_sample_filtered [of st fl s] by simp
next
  assume "fs_ready st \<and> filt_init st"
  then show "filtered (fst (process_sample fl s st)) =
          map2 (iir fl)
            (values6 (remove_bias fl (fst (process_sample fl s st))
                        (snd (sanity_check fl s st (convert fl st s)))))
            (filtered st)"
    using process_sample_filtered [of st fl s] by (simp only: if_True)
next
  show "(iir real_ops x ^^ n) f0 - x = (17 / 20) ^ n * (f0 - x)"
    by (rule iir_real_iterate)
next
  show "\<bar>(iir real_ops x ^^ Suc n) f0 - x\<bar> \<le> \<bar>(iir real_ops x ^^ n) f0 - x\<bar>"
    by (rule iir_real_closer)
next
  assume "f0 \<le> x"
  then show "(iir real_ops x ^^ n) f0 \<le> (iir real_ops x ^^ Suc n) f0"
    and "(iir real_ops x ^^ Suc n) f0 \<le> x"
    using iir_real_from_below [of f0 x n] by blast+
next
  assume "x \<le> f0"
  then show "x \<le> (iir real_ops x ^^ Suc n) f0"
    and "(iir real_ops x ^^ Suc n) f0 \<le> (iir real_ops x ^^ n) f0"
    using iir_real_from_above [of x f0 n] by blast+
next
  show "(\<lambda>k. (iir real_ops x ^^ k) f0) \<longlonglongrightarrow> x"
    by (rule iir_real_limit)
qed

theorem low_pass_seed_step_converge_witness:
  "\<not> filt_init st_ready
   \<and> filtered (iir_filter real_ops st_ready (convert real_ops st_ready (sample_az 16384)))
       = [0, 0, 1, 0, 0, 0]
   \<and> (iir real_ops 1 ^^ 1) 0 = 3 / 20
   \<and> (iir real_ops 1 ^^ Suc 1) 0 = 111 / 400
   \<and> (iir real_ops 1 ^^ 1) 0 \<le> (iir real_ops 1 ^^ Suc 1) 0
   \<and> (iir real_ops 1 ^^ Suc 1) 0 \<le> 1"
proof -
  let ?p = "convert real_ops st_ready (sample_az 16384)"
  have f0: "\<not> filt_init st_ready"
    by (simp add: st_ready_def init_state_def)
  have p: "values6 ?p = [0, 0, 1, 0, 0, 0]"
    by (simp add: values6_def convert_def st_ready_def init_state_def sample_az_def
        real_ops_simps Let_def)
  note inst = low_pass_seed_step_converge
    [where fl = real_ops and st = st_ready and p = "?p" and x = 1 and ?f0.0 = 0 and n = 1]
  have seed: "filtered (iir_filter real_ops st_ready ?p) = values6 ?p"
    using inst [THEN conjunct1] f0 by simp
  have le: "(0 :: real) \<le> 1" by simp
  have mono: "(iir real_ops 1 ^^ 1) 0 \<le> (iir real_ops 1 ^^ Suc 1) 0
        \<and> (iir real_ops 1 ^^ Suc 1) 0 \<le> 1"
    using inst [THEN conjunct2, THEN conjunct2, THEN conjunct2, THEN conjunct2,
        THEN conjunct2, THEN conjunct2, THEN conjunct2, THEN conjunct2, THEN conjunct1,
        THEN mp, OF le] .
  have v1: "(iir real_ops 1 ^^ 1) 0 = 3 / 20"
    and v2: "(iir real_ops 1 ^^ Suc 1) 0 = 111 / 400"
    by (simp_all add: iir_real)
  from f0 seed p v1 v2 mono show ?thesis by simp
qed

section \<open>The sanity check, for any floating-point arithmetic\<close>

text \<open>
  Once the latch is set the sanity check changes neither the scale nor the sample. On
  a frame whose norm is in the high band while the latch is unset, the high counter is
  incremented; when it thereby reaches the trigger and the scale is below 65536, the
  scale is doubled, the latch is set and both counters are cleared, and otherwise the
  low counter keeps its value.
\<close>

lemma sanity_check_latched:
  assumes "accel_scale_sanity_fixed st"
  shows "accel_lsb_per_g (fst (sanity_check fl s st p)) = accel_lsb_per_g st"
    and "accel_scale_sanity_fixed (fst (sanity_check fl s st p))"
    and "snd (sanity_check fl s st p) = p"
  using assms by (simp_all add: sanity_check_def Let_def)

lemma sanity_check_high_band:
  assumes "fs_ready st" and "\<not> accel_scale_sanity_fixed st"
    and "flt fl (lit fl 1.7) (anorm p)" and "flt fl (anorm p) (lit fl 2.3)"
  shows "anorm_low_cnt (fst (sanity_check fl s st p)) =
           (if anorm_trigger_frames \<le> anorm_high_cnt st + 1
               \<and> flt fl (accel_lsb_per_g st) (lit fl 65536.0)
            then 0 else anorm_low_cnt st)"
    and "anorm_high_cnt (fst (sanity_check fl s st p)) =
           (if anorm_trigger_frames \<le> anorm_high_cnt st + 1
               \<and> flt fl (accel_lsb_per_g st) (lit fl 65536.0)
            then 0 else anorm_high_cnt st + 1)"
    and "accel_lsb_per_g (fst (sanity_check fl s st p)) =
           (if anorm_trigger_frames \<le> anorm_high_cnt st + 1
               \<and> flt fl (accel_lsb_per_g st) (lit fl 65536.0)
            then fmul fl (accel_lsb_per_g st) (lit fl 2.0) else accel_lsb_per_g st)"
    and "accel_scale_sanity_fixed (fst (sanity_check fl s st p)) \<longleftrightarrow>
           anorm_trigger_frames \<le> anorm_high_cnt st + 1
           \<and> flt fl (accel_lsb_per_g st) (lit fl 65536.0)"
  using assms unfolding sanity_check_def Let_def by simp_all

end
